theory Spec2Isabelle
  imports Complex_Main "HOL-Library.Word" "HOL-Library.Sublist"
begin

section \<open>JavaScript strings\<close>

text \<open>
  The script of the extension's popup (the file \<^verbatim>\<open>src/unnamed/part_000\<close>, which the README
  calls \<^verbatim>\<open>popup.js\<close>) works on JavaScript strings: finite sequences of 16-bit code
  units. String literals of the script are ASCII and are written with \<open>js\<close>.
\<close>

type_synonym code_unit = "16 word"
type_synonym jsstring = "code_unit list"

definition js :: "string \<Rightarrow> jsstring" where
  "js s = map of_char s"

subsection \<open>String.prototype.trim\<close>

text \<open>
  ECMAScript \<^verbatim>\<open>trim\<close> strips WhiteSpace and LineTerminator code points from both
  ends: TAB, LF, VT, FF, CR, SP, NBSP, U+1680, U+2000..U+200A, U+2028, U+2029,
  U+202F, U+205F, U+3000 and U+FEFF.
\<close>

definition is_white_space :: "code_unit \<Rightarrow> bool" where
  "is_white_space c \<longleftrightarrow>
     c \<in> set [0x09, 0x0A, 0x0B, 0x0C, 0x0D, 0x20, 0xA0, 0x1680,
               0x2028, 0x2029, 0x202F, 0x205F, 0x3000, 0xFEFF]
     \<or> (0x2000 \<le> c \<and> c \<le> 0x200A)"

definition trim :: "jsstring \<Rightarrow> jsstring" where
  "trim s = rev (dropWhile is_white_space (rev (dropWhile is_white_space s)))"

subsection \<open>Decimal digits of a non-negative integer\<close>

definition digit_unit :: "nat \<Rightarrow> code_unit" where
  "digit_unit d = of_nat (48 + d)"

fun show_nat :: "nat \<Rightarrow> jsstring" where
  "show_nat n =
     (if n < 10 then [digit_unit n] else show_nat (n div 10) @ [digit_unit (n mod 10)])"

declare show_nat.simps [simp del]

subsection \<open>encodeURIComponent\<close>

text \<open>
  ECMAScript \<^verbatim>\<open>Encode(string, unreservedURIComponentSet)\<close>: letters, digits and
  \<^verbatim>\<open>-_.!~*'()\<close> are copied; every other code point is written as the percent-encoded
  octets of its UTF-8 form; an unpaired surrogate throws \<^verbatim>\<open>URIError\<close> (the value
  \<open>None\<close>).
\<close>

definition unreserved :: "code_unit \<Rightarrow> bool" where
  "unreserved c \<longleftrightarrow>
     (0x41 \<le> c \<and> c \<le> 0x5A) \<or> (0x61 \<le> c \<and> c \<le> 0x7A) \<or> (0x30 \<le> c \<and> c \<le> 0x39)
     \<or> c \<in> set (js ''-_.!~*'' @ [0x27] @ js ''()'')"

definition is_lead_surrogate :: "code_unit \<Rightarrow> bool" where
  "is_lead_surrogate c \<longleftrightarrow> 0xD800 \<le> c \<and> c \<le> 0xDBFF"

definition is_trail_surrogate :: "code_unit \<Rightarrow> bool" where
  "is_trail_surrogate c \<longleftrightarrow> 0xDC00 \<le> c \<and> c \<le> 0xDFFF"

definition surrogate_pair :: "code_unit \<Rightarrow> code_unit \<Rightarrow> nat" where
  "surrogate_pair hi lo = (unat hi - 0xD800) * 0x400 + (unat lo - 0xDC00) + 0x10000"

definition utf8 :: "nat \<Rightarrow> nat list" where
  "utf8 cp =
     (if cp < 0x80 then [cp]
      else if cp < 0x800 then [0xC0 + cp div 64, 0x80 + cp mod 64]
      else if cp < 0x10000 then
        [0xE0 + cp div 4096, 0x80 + (cp div 64) mod 64, 0x80 + cp mod 64]
      else
        [0xF0 + cp div 262144, 0x80 + (cp div 4096) mod 64,
         0x80 + (cp div 64) mod 64, 0x80 + cp mod 64])"

definition hex_unit :: "nat \<Rightarrow> code_unit" where
  "hex_unit d = js ''0123456789ABCDEF'' ! (d mod 16)"

definition percent_octet :: "nat \<Rightarrow> jsstring" where
  "percent_octet b = [0x25, hex_unit (b div 16), hex_unit (b mod 16)]"

definition percent_encode :: "nat \<Rightarrow> jsstring" where
  "percent_encode cp = concat (map percent_octet (utf8 cp))"

fun encodeURIComponent :: "jsstring \<Rightarrow> jsstring option" where
  "encodeURIComponent [] = Some []"
| "encodeURIComponent (c # cs) =
     (if unreserved c then map_option ((#) c) (encodeURIComponent cs)
      else if is_lead_surrogate c then
        (case cs of
           [] \<Rightarrow> None
         | d # ds \<Rightarrow>
             if is_trail_surrogate d
             then map_option ((@) (percent_encode (surrogate_pair c d))) (encodeURIComponent ds)
             else None)
      else if is_trail_surrogate c then None
      else map_option ((@) (percent_encode (unat c))) (encodeURIComponent cs))"

section \<open>escapeHtml\<close>

text \<open>
  \<^verbatim>\<open>escapeHtml(text)\<close> creates a \<^verbatim>\<open>div\<close>, assigns \<^verbatim>\<open>div.textContent = text\<close> and returns
  \<^verbatim>\<open>div.innerHTML\<close>. Assigning \<^verbatim>\<open>textContent\<close> replaces the children of the element by
  one Text node holding the string (by none when the string is empty). Reading
  \<^verbatim>\<open>innerHTML\<close> runs the HTML fragment serialisation algorithm, which writes a Text
  node as its data after "escaping a string": \<^verbatim>\<open>&\<close> becomes \<^verbatim>\<open>&amp;\<close>, U+00A0
  NO-BREAK SPACE becomes \<^verbatim>\<open>&nbsp;\<close>, \<^verbatim>\<open><\<close> becomes \<^verbatim>\<open>&lt;\<close> and \<^verbatim>\<open>>\<close> becomes \<^verbatim>\<open>&gt;\<close>
  (quotes are escaped in attribute values only).
\<close>

datatype node = Text jsstring

definition set_textContent :: "jsstring \<Rightarrow> node list" where
  "set_textContent t = (if t = [] then [] else [Text t])"

definition escape_unit :: "code_unit \<Rightarrow> jsstring" where
  "escape_unit c =
     (if c = 0x26 then js ''&amp;''
      else if c = 0xA0 then js ''&nbsp;''
      else if c = 0x3C then js ''&lt;''
      else if c = 0x3E then js ''&gt;''
      else [c])"

definition escape_string :: "jsstring \<Rightarrow> jsstring" where
  "escape_string d = concat (map escape_unit d)"

fun serialize_node :: "node \<Rightarrow> jsstring" where
  "serialize_node (Text d) = escape_string d"

definition get_innerHTML :: "node list \<Rightarrow> jsstring" where
  "get_innerHTML children = concat (map serialize_node children)"

definition escapeHtml :: "jsstring \<Rightarrow> jsstring" where
  "escapeHtml t = get_innerHTML (set_textContent t)"

text \<open>
  Decoding of the character references \<^verbatim>\<open>&amp;\<close>, \<^verbatim>\<open>&nbsp;\<close>, \<^verbatim>\<open>&lt;\<close> and \<^verbatim>\<open>&gt;\<close>, as an
  HTML tokenizer does it in character data (the decoded text is not scanned again). It
  is used to state what escaping achieves, and by no function of the script.
\<close>

fun text_of_html :: "jsstring \<Rightarrow> jsstring" where
  "text_of_html [] = []"
| "text_of_html (c # cs) =
     (if c = 0x26 \<and> take 4 cs = js ''amp;'' then 0x26 # text_of_html (drop 4 cs)
      else if c = 0x26 \<and> take 5 cs = js ''nbsp;'' then 0xA0 # text_of_html (drop 5 cs)
      else if c = 0x26 \<and> take 3 cs = js ''lt;'' then 0x3C # text_of_html (drop 3 cs)
      else if c = 0x26 \<and> take 3 cs = js ''gt;'' then 0x3E # text_of_html (drop 3 cs)
      else c # text_of_html cs)"

section \<open>Numbers\<close>

text \<open>
  A JavaScript Number is an IEEE 754 binary64 value. \<open>Finite s m e\<close> stands for
  \<open>(-1)^s * m * 2^e\<close>; the values that arithmetic produces are canonical: zero is
  \<open>Finite s 0 0\<close>, a normal number has \<open>2^52 \<le> m < 2^53\<close> and \<open>-1074 \<le> e \<le> 971\<close>, a
  subnormal one has \<open>m < 2^52\<close> and \<open>e = -1074\<close>.
\<close>

datatype jsnum = NaN | Infinity bool | Finite bool nat int

fun bit_length :: "nat \<Rightarrow> nat" where
  "bit_length n = (if n = 0 then 0 else Suc (bit_length (n div 2)))"

declare bit_length.simps [simp del]

text \<open>\<open>m * 2^e\<close> as a fraction of two naturals.\<close>

definition ratio_of :: "nat \<Rightarrow> int \<Rightarrow> nat \<times> nat" where
  "ratio_of m e = (if 0 \<le> e then (m * 2 ^ nat e, 1) else (m, 2 ^ nat (- e)))"

text \<open>The absolute value \<open>m * 2^e\<close> of a finite Number, as a rational.\<close>

definition abs_value :: "nat \<Rightarrow> int \<Rightarrow> rat" where
  "abs_value m e = (if 0 \<le> e then of_nat m * 2 ^ nat e else of_nat m / 2 ^ nat (- e))"

text \<open>
  The Number value for the exact quotient \<open>p / q\<close> (with \<open>0 < q\<close>): round to nearest,
  ties to even, with gradual underflow and overflow to infinity. \<open>floor_log2 p q\<close> is
  the \<open>ex\<close> with \<open>2^ex \<le> p / q < 2^(ex + 1)\<close>; the result has exponent
  \<open>max (ex - 52) (-1074)\<close>, and its significand is \<open>p / q / 2^e\<close> rounded to an integer.
\<close>

definition floor_log2_from :: "nat \<Rightarrow> nat \<Rightarrow> int \<Rightarrow> int" where
  "floor_log2_from p q l =
     (if (if 0 \<le> l then q * 2 ^ nat l \<le> p else q \<le> p * 2 ^ nat (- l)) then l else l - 1)"

definition floor_log2 :: "nat \<Rightarrow> nat \<Rightarrow> int" where
  "floor_log2 p q = floor_log2_from p q (int (bit_length p) - int (bit_length q))"

definition round_half_even :: "nat \<Rightarrow> nat \<Rightarrow> nat" where
  "round_half_even n d =
     (if d < 2 * (n mod d) \<or> (2 * (n mod d) = d \<and> odd (n div d)) then n div d + 1
      else n div d)"

definition make_finite :: "bool \<Rightarrow> nat \<Rightarrow> int \<Rightarrow> jsnum" where
  "make_finite s m e =
     (if m = 0 then Finite s 0 0
      else if m = 2 ^ 53 then (if 971 < e + 1 then Infinity s else Finite s (2 ^ 52) (e + 1))
      else if 971 < e then Infinity s
      else Finite s m e)"

definition round_at :: "bool \<Rightarrow> nat \<Rightarrow> nat \<Rightarrow> int \<Rightarrow> jsnum" where
  "round_at s p q e = make_finite s (round_half_even (p * 2 ^ nat (- e)) (q * 2 ^ nat e)) e"

definition round_ratio :: "bool \<Rightarrow> nat \<Rightarrow> nat \<Rightarrow> jsnum" where
  "round_ratio s p q =
     (if p = 0 then Finite s 0 0 else round_at s p q (max (floor_log2 p q - 52) (- 1074)))"

text \<open>The \<^verbatim>\<open>*\<close> operator on Numbers.\<close>

fun multiply :: "jsnum \<Rightarrow> jsnum \<Rightarrow> jsnum" where
  "multiply NaN y = NaN"
| "multiply (Infinity s) NaN = NaN"
| "multiply (Finite s m e) NaN = NaN"
| "multiply (Infinity s) (Infinity t) = Infinity (s \<noteq> t)"
| "multiply (Infinity s) (Finite t n f) = (if n = 0 then NaN else Infinity (s \<noteq> t))"
| "multiply (Finite s m e) (Infinity t) = (if m = 0 then NaN else Infinity (s \<noteq> t))"
| "multiply (Finite s m e) (Finite t n f) =
     (case ratio_of (m * n) (e + f) of (p, q) \<Rightarrow> round_ratio (s \<noteq> t) p q)"

text \<open>The literal \<^verbatim>\<open>100\<close>, and a decimal literal \<open>n / 10^k\<close> as JSON.parse reads it.\<close>

definition hundred :: jsnum where
  "hundred = Finite False (25 * 2 ^ 48) (- 46)"

definition decimal :: "nat \<Rightarrow> nat \<Rightarrow> jsnum" where
  "decimal n k = round_ratio False n (10 ^ k)"

text \<open>\<^verbatim>\<open>ToNumber\<close> of a property that is a Number or absent (\<^verbatim>\<open>undefined\<close>).\<close>

definition to_number :: "jsnum option \<Rightarrow> jsnum" where
  "to_number v = (case v of None \<Rightarrow> NaN | Some x \<Rightarrow> x)"

subsection \<open>Number.prototype.toString for values from 10^21\<close>

text \<open>
  For a finite \<open>x \<ge> 10^21\<close> (an integer \<open>X\<close>) ECMAScript takes integers \<open>n\<close>, \<open>k\<close>, \<open>s\<close>
  with \<open>10^(k-1) \<le> s < 10^k\<close>, the Number value of \<open>s * 10^(n-k)\<close> equal to \<open>x\<close> and \<open>k\<close> as
  small as possible (and \<open>s * 10^(n-k)\<close> closest to \<open>x\<close>), and writes the digits of \<open>s\<close>,
  a point after the first when \<open>k > 1\<close>, then \<^verbatim>\<open>e+\<close> and \<open>n - 1\<close>.
\<close>

definition exp_candidates :: "nat \<Rightarrow> nat \<Rightarrow> (nat \<times> nat) list" where
  "exp_candidates X k =
     [(s, n).
        n \<leftarrow> [length (show_nat X), length (show_nat X) + 1],
        s \<leftarrow> [X div 10 ^ (n - k), X div 10 ^ (n - k) + 1],
        10 ^ (k - 1) \<le> s \<and> s < 10 ^ k
          \<and> round_ratio False (s * 10 ^ (n - k)) 1 = round_ratio False X 1]"

fun shortest_candidates :: "nat \<Rightarrow> nat \<Rightarrow> nat \<Rightarrow> (nat \<times> nat) list" where
  "shortest_candidates X k 0 = []"
| "shortest_candidates X k (Suc fuel) =
     (case exp_candidates X k of
        [] \<Rightarrow> shortest_candidates X (k + 1) fuel
      | c # cs \<Rightarrow> c # cs)"

definition distance :: "nat \<Rightarrow> nat \<Rightarrow> nat" where
  "distance a b = (if a \<le> b then b - a else a - b)"

fun closest :: "nat \<Rightarrow> nat \<Rightarrow> (nat \<times> nat) list \<Rightarrow> nat \<times> nat \<Rightarrow> nat \<times> nat" where
  "closest X k [] best = best"
| "closest X k ((s, n) # cs) (s', n') =
     (if distance (s * 10 ^ (n - k)) X < distance (s' * 10 ^ (n' - k)) X
      then closest X k cs (s, n) else closest X k cs (s', n'))"

definition toString_large :: "nat \<Rightarrow> jsstring" where
  "toString_large X =
     (case shortest_candidates X 1 17 of
        [] \<Rightarrow> show_nat X
      | (s, n) # cs \<Rightarrow>
          (let k = length (show_nat s);
               (s', n') = closest X k cs (s, n);
               ds = show_nat s'
           in (if k = 1 then ds else hd ds # js ''.'' @ tl ds) @ js ''e+'' @ show_nat (n' - 1)))"

subsection \<open>Number.prototype.toFixed(1)\<close>

text \<open>
  ECMAScript \<^verbatim>\<open>toFixed\<close> with one fraction digit: a value that is not finite is written
  by \<^verbatim>\<open>ToString\<close>; otherwise the sign is \<^verbatim>\<open>-\<close> when \<open>x < 0\<close>; from \<open>10^21\<close> on the absolute
  value is written by \<^verbatim>\<open>ToString\<close>; below, \<open>n\<close> is the integer with \<open>n / 10\<close> closest to
  \<open>|x|\<close> (the larger of two), its digits are padded to two and the point goes before
  the last digit.
\<close>

definition digits_of :: "nat \<Rightarrow> jsstring" where
  "digits_of n = (if n = 0 then js ''0'' else show_nat n)"

definition pad_to_two :: "jsstring \<Rightarrow> jsstring" where
  "pad_to_two ds = (if length ds \<le> 1 then js ''0'' @ ds else ds)"

definition point_before_last :: "jsstring \<Rightarrow> jsstring" where
  "point_before_last ds = butlast ds @ js ''.'' @ [last ds]"

definition toFixed1 :: "jsnum \<Rightarrow> jsstring" where
  "toFixed1 x =
     (case x of
        NaN \<Rightarrow> js ''NaN''
      | Infinity s \<Rightarrow> (if s then js ''-Infinity'' else js ''Infinity'')
      | Finite s m e \<Rightarrow>
          (case ratio_of m e of
             (p, q) \<Rightarrow>
               (if s \<and> m \<noteq> 0 then js ''-'' else [])
               @ (if 10 ^ 21 * q \<le> p then toString_large (p div q)
                  else point_before_last
                         (pad_to_two (digits_of ((20 * p + q) div (2 * q)))))))"

section \<open>Memory records and their cards\<close>

text \<open>
  A memory record of a response, as \<^verbatim>\<open>displayMemories\<close> reads it: an object with the
  properties \<^verbatim>\<open>chunk_text\<close> and \<^verbatim>\<open>text\<close> (a string, or absent) and \<^verbatim>\<open>score\<close> (a Number,
  or absent), as the service's interface has them. The script reads no other property
  of a record.
\<close>

record memory =
  chunk_text :: "jsstring option"
  text' :: "jsstring option"
  score :: "jsnum option"

text \<open>
  \<^verbatim>\<open>a || b\<close> for a string-or-absent \<open>a\<close>: \<^verbatim>\<open>undefined\<close> and the empty string are falsy.
\<close>

definition or_else :: "jsstring option \<Rightarrow> jsstring \<Rightarrow> jsstring" where
  "or_else a b = (case a of None \<Rightarrow> b | Some v \<Rightarrow> if v = [] then b else v)"

text \<open>The template literal assigned to \<^verbatim>\<open>memoryElement.innerHTML\<close>.\<close>

definition memory_html :: "memory \<Rightarrow> nat \<Rightarrow> jsstring" where
  \<open>memory_html memory index =
     js ''\<newline>        <div class="memory-text">''
     @ escapeHtml (or_else (chunk_text memory) (or_else (text' memory) (js ''No text available'')))
     @ js ''</div>\<newline>        <div class="memory-meta">\<newline>          <span>Score: ''
     @ toFixed1 (multiply (to_number (score memory)) hundred)
     @ js ''%</span>\<newline>          <span>Memory #''
     @ show_nat (index + 1)
     @ js ''</span>\<newline>        </div>\<newline>      ''\<close>

text \<open>
  A card: the \<^verbatim>\<open>div\<close> element created for one record, with the record its click
  listener has captured. \<open>element\<close> tells the created elements apart.
\<close>

record card =
  element :: nat
  className :: jsstring
  innerHTML :: jsstring
  listener_memory :: memory
  backgroundColor :: jsstring

definition memoryElement :: "nat \<Rightarrow> nat \<Rightarrow> memory \<Rightarrow> card" where
  "memoryElement fresh index m =
     \<lparr>element = fresh + index, className = js ''memory-item'',
      innerHTML = memory_html m index, listener_memory = m, backgroundColor = []\<rparr>"

section \<open>The popup\<close>

datatype console_entry = Log jsstring | Error jsstring

datatype fetch_result = Rejected jsstring | Responded nat

text \<open>
  What \<^verbatim>\<open>response.json()\<close> settles to: a rejection (the body is not JSON), \<^verbatim>\<open>null\<close>, or a
  value whose \<^verbatim>\<open>results\<close> is an array or absent. A value that is falsy for
  \<^verbatim>\<open>!data.results\<close> without being absent (\<^verbatim>\<open>null\<close>, say), or that is a number, string,
  boolean or array and so has no \<^verbatim>\<open>results\<close>, behaves as \<open>results = None\<close>. An entry of the
  array is a record or \<^verbatim>\<open>null\<close> (the value \<open>None\<close>); an entry that is a number, string,
  boolean or array has none of the three properties and behaves as a record without them.
\<close>

record body =
  results :: "memory option list option"

datatype json_result = JsonFailed jsstring | JsonNull | JsonParsed body

text \<open>
  Where the pending call of \<^verbatim>\<open>searchMemories\<close> is suspended, with the \<^verbatim>\<open>query\<close> it was
  called with: at the first or second \<^verbatim>\<open>await fetch(...)\<close>, or at the
  \<^verbatim>\<open>await response.json()\<close> that follows each.
\<close>

datatype phase =
    Idle
  | AwaitPrimary jsstring
  | AwaitPrimaryJson jsstring
  | AwaitFallback jsstring
  | AwaitFallbackJson jsstring

text \<open>
  The state the script reads and writes: its variable \<^verbatim>\<open>isSearching\<close>, the three
  elements of the page, the console, the requests made with \<^verbatim>\<open>fetch\<close> (their URLs, in
  order; each is a GET with the same header), the texts passed to
  \<^verbatim>\<open>navigator.clipboard.writeText\<close>, and what is pending: the health check, the
  search, clipboard promises (by element) and timers (delay and element).
\<close>

record popup =
  isSearching :: bool
  searchInput_value :: jsstring
  searchButton_disabled :: bool
  searchButton_textContent :: jsstring
  memoriesContainer_innerHTML :: jsstring
  memoriesContainer_children :: "card list"
  created :: nat
  console :: "console_entry list"
  requests :: "jsstring list"
  health_pending :: bool
  search :: phase
  clipboard_writes :: "jsstring list"
  clipboard_pending :: "nat list"
  timers :: "(nat \<times> nat) list"

definition console_log :: "jsstring \<Rightarrow> popup \<Rightarrow> popup" where
  "console_log msg s = s\<lparr>console := console s @ [Log msg]\<rparr>"

definition console_error :: "jsstring \<Rightarrow> popup \<Rightarrow> popup" where
  "console_error msg s = s\<lparr>console := console s @ [Error msg]\<rparr>"

definition fetch :: "jsstring \<Rightarrow> popup \<Rightarrow> popup" where
  "fetch url s = s\<lparr>requests := requests s @ [url]\<rparr>"

text \<open>Assigning \<^verbatim>\<open>memoriesContainer.innerHTML\<close> replaces the children of the container.\<close>

definition set_innerHTML :: "jsstring \<Rightarrow> popup \<Rightarrow> popup" where
  "set_innerHTML html s =
     s\<lparr>memoriesContainer_innerHTML := html, memoriesContainer_children := []\<rparr>"

definition loading_html :: jsstring where
  \<open>loading_html = js ''<div class="loading">Searching your memories...</div>''\<close>

definition setLoading :: "bool \<Rightarrow> popup \<Rightarrow> popup" where
  "setLoading loading s =
     (let s1 = s\<lparr>isSearching := loading, searchButton_disabled := loading,
                  searchButton_textContent :=
                    (if loading then js ''Searching...'' else js ''Search Memories'')\<rparr>
      in if loading then set_innerHTML loading_html s1 else s1)"

definition showError :: "jsstring \<Rightarrow> popup \<Rightarrow> popup" where
  \<open>showError message s =
     set_innerHTML (js ''<div class="error">'' @ escapeHtml message @ js ''</div>'') s\<close>

definition showEmptyState :: "jsstring \<Rightarrow> popup \<Rightarrow> popup" where
  \<open>showEmptyState message s =
     set_innerHTML (js ''<div class="empty-state">'' @ escapeHtml message @ js ''</div>'') s\<close>

text \<open>
  \<^verbatim>\<open>displayMemories\<close> empties the container and runs \<^verbatim>\<open>memories.forEach\<close>: each turn creates
  an element, fills it from the entry and appends it. Reading \<^verbatim>\<open>memory.chunk_text\<close> of an
  entry that is \<^verbatim>\<open>null\<close> throws a \<^verbatim>\<open>TypeError\<close> (the message is V8's): the loop stops there,
  with the cards of the entries before it in the container. The result is the state and
  the message of the error thrown, if any.
\<close>

definition null_entry_error :: jsstring where
  "null_entry_error =
     js ''Cannot read properties of null (reading '' @ [0x27] @ js ''chunk_text'' @ [0x27]
     @ js '')''"

fun forEach_memory :: "nat \<Rightarrow> nat \<Rightarrow> memory option list \<Rightarrow> popup \<Rightarrow> popup \<times> jsstring option" where
  "forEach_memory fresh index [] s = (s, None)"
| "forEach_memory fresh index (None # rest) s =
     (s\<lparr>created := fresh + index + 1\<rparr>, Some null_entry_error)"
| "forEach_memory fresh index (Some m # rest) s =
     forEach_memory fresh (index + 1) rest
       (s\<lparr>memoriesContainer_children :=
            memoriesContainer_children s @ [memoryElement fresh index m],
          created := fresh + index + 1\<rparr>)"

definition displayMemories :: "memory option list \<Rightarrow> popup \<Rightarrow> popup \<times> jsstring option" where
  "displayMemories memories s = forEach_memory (created s) 0 memories (set_innerHTML [] s)"

subsection \<open>checkServiceStatus\<close>

definition test_url :: jsstring where
  "test_url = js ''http://localhost:8000/api/test''"

definition response_ok :: "nat \<Rightarrow> bool" where
  "response_ok status \<longleftrightarrow> 200 \<le> status \<and> status \<le> 299"

text \<open>The call runs up to its \<^verbatim>\<open>await fetch(...)\<close>; the rest runs when the promise settles.\<close>

definition checkServiceStatus :: "popup \<Rightarrow> popup" where
  "checkServiceStatus s = (fetch test_url s)\<lparr>health_pending := True\<rparr>"

definition checkServiceStatus_settled :: "fetch_result \<Rightarrow> popup \<Rightarrow> popup" where
  "checkServiceStatus_settled r s =
     (case r of
        Responded status \<Rightarrow>
          if response_ok status then console_log (js ''Memory service is running'') s
          else console_log (js ''Memory service responded but with error'') s
      | Rejected msg \<Rightarrow>
          showError
            (js ''Memory service is not available. Please make sure it'' @ [0x27]
              @ js ''s running on localhost:8000'')
            (console_error (js ''Memory service is not available:'') s))"

subsection \<open>searchMemories\<close>

definition cascading_url :: "jsstring \<Rightarrow> jsstring" where
  "cascading_url q = js ''http://localhost:8000/api/cascading-retrieval?text_query='' @ q"

definition semantic_url :: "jsstring \<Rightarrow> jsstring" where
  "semantic_url q = js ''http://localhost:8000/api/semantic-search?text_query='' @ q"

definition http_error :: "nat \<Rightarrow> jsstring" where
  "http_error status = js ''HTTP error! status: '' @ show_nat status"

text \<open>The \<^verbatim>\<open>finally\<close> block, after which the call is over.\<close>

definition searchMemories_finally :: "popup \<Rightarrow> popup" where
  "searchMemories_finally s = (setLoading False s)\<lparr>search := Idle\<rparr>"

text \<open>The \<^verbatim>\<open>catch\<close> block, for an error whose \<^verbatim>\<open>message\<close> is \<open>msg\<close>.\<close>

definition searchMemories_catch :: "jsstring \<Rightarrow> popup \<Rightarrow> popup" where
  "searchMemories_catch msg s =
     searchMemories_finally
       (showError (js ''Failed to search memories: '' @ msg)
          (console_error (js ''Error details:'')
             (console_error (js ''Error searching memories:'') s)))"

text \<open>
  The last statement of the \<^verbatim>\<open>try\<close> block: cards, or the empty state. An error thrown
  by \<^verbatim>\<open>displayMemories\<close> is caught like any other.
\<close>

definition searchMemories_show :: "body \<Rightarrow> popup \<Rightarrow> popup" where
  "searchMemories_show data s =
     (case results data of
        Some (m # ms) \<Rightarrow>
          (case displayMemories (m # ms) s of
             (s1, None) \<Rightarrow> searchMemories_finally s1
           | (s1, Some msg) \<Rightarrow> searchMemories_catch msg s1)
      | _ \<Rightarrow>
          searchMemories_finally
            (showEmptyState (js ''No memories found for your search'') s))"

text \<open>
  The call itself, up to its first \<^verbatim>\<open>await\<close>. \<^verbatim>\<open>encodeURIComponent\<close> is evaluated
  inside the \<^verbatim>\<open>try\<close> block; the message of its \<^verbatim>\<open>URIError\<close> is V8's.
\<close>

definition searchMemories :: "jsstring \<Rightarrow> popup \<Rightarrow> popup" where
  "searchMemories query s =
     (if trim query = [] then showEmptyState (js ''Please enter a search query'') s
      else
        let s1 = setLoading True s
        in case encodeURIComponent query of
             None \<Rightarrow> searchMemories_catch (js ''URI malformed'') s1
           | Some q \<Rightarrow> (fetch (cascading_url q) s1)\<lparr>search := AwaitPrimary query\<rparr>)"

text \<open>A pending \<^verbatim>\<open>fetch\<close> of the search settles.\<close>

definition fetch_settled :: "fetch_result \<Rightarrow> popup \<Rightarrow> popup" where
  "fetch_settled r s =
     (case search s of
        AwaitPrimary query \<Rightarrow>
          (case r of
             Rejected msg \<Rightarrow> searchMemories_catch msg s
           | Responded status \<Rightarrow>
               if \<not> response_ok status then searchMemories_catch (http_error status) s
               else s\<lparr>search := AwaitPrimaryJson query\<rparr>)
      | AwaitFallback query \<Rightarrow>
          (case r of
             Rejected msg \<Rightarrow> searchMemories_catch msg s
           | Responded status \<Rightarrow>
               if \<not> response_ok status then searchMemories_catch (http_error status) s
               else s\<lparr>search := AwaitFallbackJson query\<rparr>)
      | _ \<Rightarrow> s)"

text \<open>
  A pending \<^verbatim>\<open>response.json()\<close> of the search settles. When \<^verbatim>\<open>data\<close> is \<^verbatim>\<open>null\<close>, reading
  \<^verbatim>\<open>data.results\<close> throws a \<^verbatim>\<open>TypeError\<close> (the message is V8's) after the response has
  been logged.
\<close>

definition null_results_error :: jsstring where
  "null_results_error =
     js ''Cannot read properties of null (reading '' @ [0x27] @ js ''results'' @ [0x27] @ js '')''"

definition json_settled :: "json_result \<Rightarrow> popup \<Rightarrow> popup" where
  "json_settled j s =
     (case search s of
        AwaitPrimaryJson query \<Rightarrow>
          (case j of
             JsonFailed msg \<Rightarrow> searchMemories_catch msg s
           | JsonNull \<Rightarrow>
               searchMemories_catch null_results_error
                 (console_log (js ''Cascading API Response:'') s)
           | JsonParsed data \<Rightarrow>
               let s1 = console_log (js ''Cascading API Response:'') s
               in if results data = None \<or> results data = Some [] then
                    let s2 = console_log
                               (js ''No results from cascading, trying semantic search...'') s1
                    in case encodeURIComponent query of
                         None \<Rightarrow> searchMemories_catch (js ''URI malformed'') s2
                       | Some q \<Rightarrow> (fetch (semantic_url q) s2)\<lparr>search := AwaitFallback query\<rparr>
                  else searchMemories_show data s1)
      | AwaitFallbackJson query \<Rightarrow>
          (case j of
             JsonFailed msg \<Rightarrow> searchMemories_catch msg s
           | JsonNull \<Rightarrow>
               searchMemories_catch null_results_error
                 (console_log (js ''Semantic API Response:'') s)
           | JsonParsed data \<Rightarrow>
               searchMemories_show data (console_log (js ''Semantic API Response:'') s))
      | _ \<Rightarrow> s)"

subsection \<open>The click listener of a card\<close>

definition set_backgroundColor :: "nat \<Rightarrow> jsstring \<Rightarrow> popup \<Rightarrow> popup" where
  "set_backgroundColor i colour s =
     s\<lparr>memoriesContainer_children :=
         map (\<lambda>c. if element c = i then c\<lparr>backgroundColor := colour\<rparr> else c)
           (memoriesContainer_children s)\<rparr>"

definition card_clicked :: "nat \<Rightarrow> popup \<Rightarrow> popup" where
  "card_clicked i s =
     (case find (\<lambda>c. element c = i) (memoriesContainer_children s) of
        None \<Rightarrow> s
      | Some c \<Rightarrow>
          s\<lparr>clipboard_writes := clipboard_writes s
               @ [or_else (chunk_text (listener_memory c))
                    (or_else (text' (listener_memory c)) [])],
            clipboard_pending := clipboard_pending s @ [i]\<rparr>)"

text \<open>
  The promise of \<^verbatim>\<open>writeText\<close> settles: \<^verbatim>\<open>then\<close> colours the element and starts the
  500 ms timer, \<^verbatim>\<open>catch\<close> logs. An element that is no longer a child of the container
  is not on the page.
\<close>

definition clipboard_settled :: "nat \<Rightarrow> bool \<Rightarrow> popup \<Rightarrow> popup" where
  "clipboard_settled i fulfilled s =
     (if i \<in> set (clipboard_pending s) then
        let s1 = s\<lparr>clipboard_pending := remove1 i (clipboard_pending s)\<rparr>
        in if fulfilled
           then (set_backgroundColor i (js ''#34a853'') s1)\<lparr>timers := timers s1 @ [(500, i)]\<rparr>
           else console_error (js ''Failed to copy text: '') s1
      else s)"

definition timer_fired :: "nat \<Rightarrow> popup \<Rightarrow> popup" where
  "timer_fired i s =
     (if (500, i) \<in> set (timers s)
      then (set_backgroundColor i [] s)\<lparr>timers := remove1 (500, i) (timers s)\<rparr>
      else s)"

subsection \<open>Events\<close>

text \<open>
  What happens to the popup after it has loaded: the user edits the input, clicks the
  button, presses a key in the input or clicks a card; a promise of the health check,
  of the search or of the clipboard settles; a timer fires.
\<close>

datatype event =
    Input jsstring
  | Click
  | Keypress jsstring
  | CardClick nat
  | HealthSettled fetch_result
  | FetchSettled fetch_result
  | JsonSettled json_result
  | ClipboardSettled nat bool
  | TimerFired nat

fun step :: "event \<Rightarrow> popup \<Rightarrow> popup" where
  "step (Input v) s = s\<lparr>searchInput_value := v\<rparr>"
| "step Click s = (if \<not> isSearching s then searchMemories (searchInput_value s) s else s)"
| "step (Keypress key) s =
     (if key = js ''Enter'' \<and> \<not> isSearching s then searchMemories (searchInput_value s) s
      else s)"
| "step (CardClick i) s = card_clicked i s"
| "step (HealthSettled r) s =
     (if health_pending s then checkServiceStatus_settled r (s\<lparr>health_pending := False\<rparr>)
      else s)"
| "step (FetchSettled r) s = fetch_settled r s"
| "step (JsonSettled j) s = json_settled j s"
| "step (ClipboardSettled i fulfilled) s = clipboard_settled i fulfilled s"
| "step (TimerFired i) s = timer_fired i s"

definition run :: "event list \<Rightarrow> popup \<Rightarrow> popup" where
  "run es s = foldl (\<lambda>s e. step e s) s es"



text \<open>
  The page before the script runs. \<^verbatim>\<open>popup.html\<close> is not among the sources: what it
  gives the input, the button and the container is left open.
\<close>

definition page :: "jsstring \<Rightarrow> bool \<Rightarrow> jsstring \<Rightarrow> jsstring \<Rightarrow> popup" where
  "page v disabled label html =
     \<lparr>isSearching = False, searchInput_value = v, searchButton_disabled = disabled,
      searchButton_textContent = label, memoriesContainer_innerHTML = html,
      memoriesContainer_children = [], created = 0, console = [], requests = [],
      health_pending = False, search = Idle, clipboard_writes = [],
      clipboard_pending = [], timers = []\<rparr>"

text \<open>The \<^verbatim>\<open>DOMContentLoaded\<close> listener: \<^verbatim>\<open>isSearching = false\<close>, then the health check.\<close>

definition DOMContentLoaded :: "popup \<Rightarrow> popup" where
  "DOMContentLoaded s = checkServiceStatus (s\<lparr>isSearching := False\<rparr>)"

inductive reachable :: "popup \<Rightarrow> bool" where
  loaded: "reachable (DOMContentLoaded (page v disabled label html))"
| event: "reachable s \<Longrightarrow> reachable (step e s)"

code_pred reachable .

section \<open>Properties of escapeHtml\<close>

lemma escapeHtml_eq: "escapeHtml t = concat (map escape_unit t)"
  by (simp add: escapeHtml_def set_textContent_def get_innerHTML_def escape_string_def)

lemma escapeHtml_Nil [simp]: "escapeHtml [] = []"
  by (simp add: escapeHtml_eq)

lemma escapeHtml_Cons: "escapeHtml (c # t) = escape_unit c @ escapeHtml t"
  by (simp add: escapeHtml_eq)

lemma escapeHtml_append: "escapeHtml (a @ b) = escapeHtml a @ escapeHtml b"
  by (simp add: escapeHtml_eq)

lemma text_of_html_escape_unit: "text_of_html (escape_unit c @ r) = c # text_of_html r"
  by (simp add: escape_unit_def js_def)

lemma text_of_html_escapeHtml: "text_of_html (escapeHtml t) = t"
  by (induction t) (simp_all add: escapeHtml_Cons text_of_html_escape_unit)

lemma no_markup_unit: "0x3C \<notin> set (escape_unit c) \<and> 0x3E \<notin> set (escape_unit c)"
  by (simp add: escape_unit_def js_def)

lemma no_markup: "0x3C \<notin> set (escapeHtml t) \<and> 0x3E \<notin> set (escapeHtml t)"
  by (induction t) (simp_all add: escapeHtml_Cons no_markup_unit)

lemma escapeHtml_prefix:
  "escapeHtml (js ''Failed to search memories: '' @ msg)
     = js ''Failed to search memories: '' @ escapeHtml msg"
  by (simp add: escapeHtml_append) (simp add: escapeHtml_eq escape_unit_def js_def)

section \<open>Properties of the score format\<close>

lemma show_nat_small: "n < 10 \<Longrightarrow> show_nat n = [digit_unit n]"
  by (simp add: show_nat.simps)

lemma show_nat_large: "10 \<le> n \<Longrightarrow> show_nat n = show_nat (n div 10) @ [digit_unit (n mod 10)]"
  by (subst show_nat.simps) simp

lemma show_nat_not_Nil: "show_nat n \<noteq> []"
  by (subst show_nat.simps) simp

lemma point_digits:
  "point_before_last (pad_to_two (digits_of n)) = show_nat (n div 10) @ js ''.'' @ show_nat (n mod 10)"
proof (cases "n < 10")
  case True
  then show ?thesis
    by (simp add: point_before_last_def pad_to_two_def digits_of_def show_nat_small js_def digit_unit_def)
next
  case False
  then have "show_nat n = show_nat (n div 10) @ [digit_unit (n mod 10)]"
    by (simp add: show_nat_large)
  with False show ?thesis
    by (simp add: point_before_last_def pad_to_two_def digits_of_def show_nat_small show_nat_not_Nil Suc_le_eq)
qed

lemma ratio_of_pos: "ratio_of m e = (p, q) \<Longrightarrow> 0 < q"
  by (auto simp: ratio_of_def split: if_splits)

lemma ratio_of_value: "ratio_of m e = (p, q) \<Longrightarrow> abs_value m e = of_nat p / of_nat q"
  by (auto simp: ratio_of_def abs_value_def split: if_splits)

lemma half_up:
  assumes "0 < q"
  shows "(20 * p + q) div (2 * q) = nat \<lfloor>10 * (of_nat p / of_nat q :: rat) + 1 / 2\<rfloor>"
proof -
  have "10 * (of_nat p / of_nat q :: rat) + 1 / 2 = of_nat (20 * p + q) / of_nat (2 * q)"
    using assms by (simp add: field_simps)
  then show ?thesis
    by (simp only: floor_divide_of_nat_eq nat_int)
qed

lemma large_iff:
  assumes "ratio_of m e = (p, q)"
  shows "10 ^ 21 * q \<le> p \<longleftrightarrow> 10 ^ 21 \<le> abs_value m e"
proof -
  have q: "0 < q" using assms by (rule ratio_of_pos)
  have "abs_value m e = of_nat p / of_nat q" using assms by (rule ratio_of_value)
  moreover have "(10 ^ 21 \<le> (of_nat p / of_nat q :: rat)) = (of_nat (10 ^ 21 * q) \<le> (of_nat p :: rat))"
    using q by (simp add: field_simps)
  ultimately show ?thesis by (simp only: of_nat_le_iff)
qed

lemma toFixed1_finite:
  assumes "abs_value m e < 10 ^ 21"
  shows "toFixed1 (Finite s m e) =
           (if s \<and> m \<noteq> 0 then js ''-'' else [])
           @ show_nat (nat \<lfloor>10 * abs_value m e + 1 / 2\<rfloor> div 10) @ js ''.''
           @ show_nat (nat \<lfloor>10 * abs_value m e + 1 / 2\<rfloor> mod 10)"
proof -
  obtain p q where r: "ratio_of m e = (p, q)" by (cases "ratio_of m e")
  have q: "0 < q" using r by (rule ratio_of_pos)
  have v: "abs_value m e = of_nat p / of_nat q" using r by (rule ratio_of_value)
  have small: "\<not> 10 ^ 21 * q \<le> p" using assms large_iff [OF r] by simp
  show ?thesis
    using small by (simp add: toFixed1_def r point_digits half_up [OF q] v)
qed

lemma nearest_tenth:
  "\<bar>of_nat (nat \<lfloor>10 * abs_value m e + 1 / 2\<rfloor>) / 10 - abs_value m e\<bar> \<le> 1 / 20"
proof -
  define v where "v = abs_value m e"
  define k :: rat where "k = of_int \<lfloor>10 * v + 1 / 2\<rfloor>"
  have "0 \<le> v" by (simp add: v_def abs_value_def)
  then have "0 \<le> \<lfloor>10 * v + 1 / 2\<rfloor>" by simp
  then have eq: "(of_nat (nat \<lfloor>10 * v + 1 / 2\<rfloor>) :: rat) = k"
    by (simp add: k_def)
  have lower: "k \<le> 10 * v + 1 / 2"
    unfolding k_def by (rule of_int_floor_le)
  have upper: "10 * v + 1 / 2 < k + 1"
    unfolding k_def using floor_correct [of "10 * v + 1 / 2"] by simp
  have "k / 10 - v \<le> 1 / 20" using lower by linarith
  moreover have "- (k / 10 - v) \<le> 1 / 20" using upper by linarith
  ultimately have "\<bar>k / 10 - v\<bar> \<le> 1 / 20" by (rule abs_leI)
  then show ?thesis unfolding v_def [symmetric] eq .
qed

text \<open>The score 0.953 of the specification, evaluated.\<close>

lemmas round_defs = round_ratio_def round_at_def make_finite_def round_half_even_def
  floor_log2_def floor_log2_from_def bit_length.simps

lemma decimal_953: "decimal 953 3 = Finite False 8583860889768165 (- 53)"
  by (simp add: decimal_def round_defs)

lemma product_953:
  "multiply (decimal 953 3) hundred = Finite False 6706141320131379 (- 46)"
  by (simp add: decimal_953 hundred_def ratio_of_def round_defs)

lemma rounded_953: "nat \<lfloor>10 * abs_value 6706141320131379 (- 46) + 1 / 2\<rfloor> = 953"
proof -
  have r: "ratio_of 6706141320131379 (- 46) = (6706141320131379, 2 ^ 46)"
    by (simp add: ratio_of_def)
  have "nat \<lfloor>10 * abs_value 6706141320131379 (- 46) + 1 / 2\<rfloor>
          = (20 * 6706141320131379 + 2 ^ 46) div (2 * 2 ^ 46)"
    unfolding ratio_of_value [OF r] by (rule half_up [symmetric]) simp
  then show ?thesis by simp
qed

lemma below_953: "abs_value 6706141320131379 (- 46) < 10 ^ 21"
  by (simp add: abs_value_def)

section \<open>Properties of displayMemories\<close>

text \<open>The loop of \<^verbatim>\<open>displayMemories\<close> in closed form.\<close>

lemma forEach_memory_eq:
  assumes "created s = fresh + k"
  shows "forEach_memory fresh k entries s =
           (s\<lparr>memoriesContainer_children :=
                memoriesContainer_children s
                @ map (\<lambda>(index, m). memoryElement fresh index m)
                    (enumerate k (map the (takeWhile (\<lambda>e. e \<noteq> None) entries))),
              created := fresh + k + length (takeWhile (\<lambda>e. e \<noteq> None) entries)
                         + (if None \<in> set entries then 1 else 0)\<rparr>,
            if None \<in> set entries then Some null_entry_error else None)"
  using assms
proof (induction entries arbitrary: k s)
  case Nil
  then show ?case by simp
next
  case (Cons entry rest)
  show ?case
  proof (cases entry)
    case None
    with Cons.prems show ?thesis by simp
  next
    case (Some m)
    let ?s1 = "s\<lparr>memoriesContainer_children :=
                    memoriesContainer_children s @ [memoryElement fresh k m],
                  created := fresh + k + 1\<rparr>"
    have "created ?s1 = fresh + (k + 1)" by simp
    from Cons.IH [OF this] Some show ?thesis by simp
  qed
qed

lemma displayMemories_eq:
  "displayMemories entries s =
     ((set_innerHTML [] s)
        \<lparr>memoriesContainer_children :=
           map (\<lambda>(index, m). memoryElement (created s) index m)
             (enumerate 0 (map the (takeWhile (\<lambda>e. e \<noteq> None) entries))),
         created := created s + length (takeWhile (\<lambda>e. e \<noteq> None) entries)
                    + (if None \<in> set entries then 1 else 0)\<rparr>,
      if None \<in> set entries then Some null_entry_error else None)"
proof -
  have "created (set_innerHTML [] s) = created s + 0" by (simp add: set_innerHTML_def)
  from forEach_memory_eq [OF this, of entries] show ?thesis
    by (simp add: displayMemories_def set_innerHTML_def)
qed

lemma takeWhile_records:
  "(\<And>m. P (Some m)) \<Longrightarrow> takeWhile P (map Some ms) = map Some ms"
  by (induction ms) simp_all

lemma displayMemories_records:
  "displayMemories (map Some ms) s =
     ((set_innerHTML [] s)
        \<lparr>memoriesContainer_children :=
           map (\<lambda>(index, m). memoryElement (created s) index m) (enumerate 0 ms),
         created := created s + length ms\<rparr>,
      None)"
  by (simp add: displayMemories_eq takeWhile_records comp_def)

lemma children_nth:
  "i < length ms \<Longrightarrow>
   memoriesContainer_children (fst (displayMemories (map Some ms) st)) ! i
     = memoryElement (created st) i (ms ! i)"
  by (simp add: displayMemories_records nth_enumerate_eq)

text \<open>What the last statement of the \<^verbatim>\<open>try\<close> block comes to.\<close>

lemma searchMemories_show_eq:
  "searchMemories_show data s =
     (case results data of
        Some (m # ms) \<Rightarrow>
          (if None \<in> set (m # ms)
           then searchMemories_catch null_entry_error (fst (displayMemories (m # ms) s))
           else searchMemories_finally (fst (displayMemories (m # ms) s)))
      | _ \<Rightarrow>
          searchMemories_finally
            (showEmptyState (js ''No memories found for your search'') s))"
  by (simp add: searchMemories_show_def displayMemories_eq split: option.splits list.splits)

lemma displayMemories_fields:
  "requests (fst (displayMemories entries s)) = requests s"
  "memoriesContainer_innerHTML (fst (displayMemories entries s)) = []"
  "isSearching (fst (displayMemories entries s)) = isSearching s"
  "search (fst (displayMemories entries s)) = search s"
  by (simp_all add: displayMemories_eq set_innerHTML_def)

section \<open>Properties of the handlers\<close>

lemmas popup_defs = console_log_def console_error_def fetch_def set_innerHTML_def setLoading_def
  showError_def showEmptyState_def searchMemories_finally_def searchMemories_catch_def

lemma trim_blank:
  assumes "\<forall>c \<in> set q. is_white_space c"
  shows "trim q = []"
proof -
  have d: "dropWhile is_white_space q = []" using assms by simp
  show ?thesis unfolding trim_def d by simp
qed

lemma catch_fields:
  "search (searchMemories_catch msg s) = Idle"
  "isSearching (searchMemories_catch msg s) = False"
  "searchButton_disabled (searchMemories_catch msg s) = False"
  "searchButton_textContent (searchMemories_catch msg s) = js ''Search Memories''"
  "requests (searchMemories_catch msg s) = requests s"
  \<open>memoriesContainer_innerHTML (searchMemories_catch msg s)
     = js ''<div class="error">Failed to search memories: '' @ escapeHtml msg @ js ''</div>''\<close>
  by (simp_all add: popup_defs escapeHtml_prefix) (simp add: js_def)

lemma error_not_loading:
  \<open>js ''<div class="error">Failed to search memories: '' @ x \<noteq> loading_html\<close>
  by (simp add: loading_html_def js_def)

lemma finally_fields:
  "search (searchMemories_finally s) = Idle"
  "isSearching (searchMemories_finally s) = False"
  "searchButton_disabled (searchMemories_finally s) = False"
  "searchButton_textContent (searchMemories_finally s) = js ''Search Memories''"
  "requests (searchMemories_finally s) = requests s"
  "memoriesContainer_innerHTML (searchMemories_finally s) = memoriesContainer_innerHTML s"
  "memoriesContainer_children (searchMemories_finally s) = memoriesContainer_children s"
  by (simp_all add: searchMemories_finally_def setLoading_def)

text \<open>What the container shows once the last statement of the \<^verbatim>\<open>try\<close> block has run.\<close>

lemma show_html:
  \<open>memoriesContainer_innerHTML (searchMemories_show d s)
     = (case results d of
          Some (m # ms) \<Rightarrow>
            if None \<in> set (m # ms)
            then js ''<div class="error">Failed to search memories: '' @ escapeHtml null_entry_error
                 @ js ''</div>''
            else []
        | _ \<Rightarrow> js ''<div class="empty-state">No memories found for your search</div>'')\<close>
proof -
  have "escapeHtml (js ''No memories found for your search'')
          = js ''No memories found for your search''"
    by (simp add: escapeHtml_eq escape_unit_def js_def)
  then show ?thesis
    by (simp add: searchMemories_show_eq finally_fields catch_fields displayMemories_fields
        showEmptyState_def set_innerHTML_def split: option.splits list.splits)
      (simp add: js_def)
qed

lemma show_null:
  assumes "None \<in> set (case results d of None \<Rightarrow> [] | Some entries \<Rightarrow> entries)"
  shows \<open>memoriesContainer_innerHTML (searchMemories_show d s)
           = js ''<div class="error">Failed to search memories: '' @ escapeHtml null_entry_error
             @ js ''</div>''\<close>
  using assms by (auto simp: show_html split: option.splits list.splits)

lemma show_fields:
  "search (searchMemories_show d s) = Idle"
  "isSearching (searchMemories_show d s) = False"
  "searchButton_disabled (searchMemories_show d s) = False"
  "searchButton_textContent (searchMemories_show d s) = js ''Search Memories''"
  "requests (searchMemories_show d s) = requests s"
  "memoriesContainer_innerHTML (searchMemories_show d s) \<noteq> loading_html"
proof -
  show "memoriesContainer_innerHTML (searchMemories_show d s) \<noteq> loading_html"
    by (simp add: show_html error_not_loading split: option.splits list.splits)
      (simp add: loading_html_def js_def)
qed (simp_all add: searchMemories_show_eq finally_fields catch_fields displayMemories_fields
    showEmptyState_def set_innerHTML_def split: option.splits list.splits)

lemma settled_idle [simp]:
  "search s = Idle \<Longrightarrow> fetch_settled r s = s"
  "search s = Idle \<Longrightarrow> json_settled j s = s"
  by (simp_all add: fetch_settled_def json_settled_def)

lemma dispatch:
  assumes "\<not> isSearching s" and "trim (searchInput_value s) \<noteq> []"
  shows "step Click s =
           (case encodeURIComponent (searchInput_value s) of
              None \<Rightarrow> searchMemories_catch (js ''URI malformed'') (setLoading True s)
            | Some q \<Rightarrow>
                (fetch (cascading_url q) (setLoading True s))
                  \<lparr>search := AwaitPrimary (searchInput_value s)\<rparr>)"
  using assms by (simp add: searchMemories_def Let_def)

lemma primary_settled:
  assumes "search s = AwaitPrimary v"
  shows "fetch_settled r s =
           (case r of
              Rejected msg \<Rightarrow> searchMemories_catch msg s
            | Responded status \<Rightarrow>
                if response_ok status then s\<lparr>search := AwaitPrimaryJson v\<rparr>
                else searchMemories_catch (http_error status) s)"
  using assms by (simp add: fetch_settled_def split: fetch_result.splits)

lemma fallback_settled:
  assumes "search s = AwaitFallback v"
  shows "fetch_settled r s =
           (case r of
              Rejected msg \<Rightarrow> searchMemories_catch msg s
            | Responded status \<Rightarrow>
                if response_ok status then s\<lparr>search := AwaitFallbackJson v\<rparr>
                else searchMemories_catch (http_error status) s)"
  using assms by (simp add: fetch_settled_def split: fetch_result.splits)

lemma primary_json_settled:
  assumes "search s = AwaitPrimaryJson v" and "encodeURIComponent v = Some q"
  shows "json_settled j s =
           (case j of
              JsonFailed msg \<Rightarrow> searchMemories_catch msg s
            | JsonNull \<Rightarrow>
                searchMemories_catch null_results_error
                  (console_log (js ''Cascading API Response:'') s)
            | JsonParsed data \<Rightarrow>
                if results data = None \<or> results data = Some [] then
                  (fetch (semantic_url q)
                     (console_log (js ''No results from cascading, trying semantic search...'')
                        (console_log (js ''Cascading API Response:'') s)))
                    \<lparr>search := AwaitFallback v\<rparr>
                else searchMemories_show data (console_log (js ''Cascading API Response:'') s))"
  using assms by (simp add: json_settled_def Let_def split: json_result.splits)

lemma fallback_json_settled:
  assumes "search s = AwaitFallbackJson v"
  shows "json_settled j s =
           (case j of
              JsonFailed msg \<Rightarrow> searchMemories_catch msg s
            | JsonNull \<Rightarrow>
                searchMemories_catch null_results_error
                  (console_log (js ''Semantic API Response:'') s)
            | JsonParsed data \<Rightarrow>
                searchMemories_show data (console_log (js ''Semantic API Response:'') s))"
  using assms by (simp add: json_settled_def split: json_result.splits)

text \<open>Once the fallback request is out, two settlements end the search.\<close>

lemma fallback_ends:
  assumes "search s = AwaitFallback v"
  shows
    \<open>let t = json_settled j2 (fetch_settled r2 s);
         failed = (\<lambda>msg. memoriesContainer_innerHTML t
                     = js ''<div class="error">Failed to search memories: '' @ escapeHtml msg
                       @ js ''</div>'')
     in search t = Idle \<and> \<not> isSearching t \<and> \<not> searchButton_disabled t
        \<and> searchButton_textContent t = js ''Search Memories''
        \<and> memoriesContainer_innerHTML t \<noteq> loading_html
        \<and> requests t = requests s
        \<and> (\<forall>msg. r2 = Rejected msg \<longrightarrow> failed msg)
        \<and> (\<forall>status. r2 = Responded status \<and> \<not> response_ok status
              \<longrightarrow> failed (http_error status))
        \<and> (\<forall>status msg. r2 = Responded status \<and> response_ok status \<and> j2 = JsonFailed msg
              \<longrightarrow> failed msg)
        \<and> (\<forall>status. r2 = Responded status \<and> response_ok status \<and> j2 = JsonNull
              \<longrightarrow> failed null_results_error)
        \<and> (\<forall>status data entries. r2 = Responded status \<and> response_ok status
                \<and> j2 = JsonParsed data \<and> results data = Some entries \<and> None \<in> set entries
              \<longrightarrow> failed null_entry_error)\<close>
proof (cases r2)
  case (Rejected msg)
  then show ?thesis
    by (simp add: Let_def fallback_settled [OF assms] catch_fields error_not_loading)
next
  case (Responded status)
  show ?thesis
  proof (cases "response_ok status")
    case False
    with Responded show ?thesis
      by (simp add: Let_def fallback_settled [OF assms] catch_fields error_not_loading)
  next
    case True
    have "search (s\<lparr>search := AwaitFallbackJson v\<rparr>) = AwaitFallbackJson v" by simp
    from fallback_json_settled [OF this] Responded True show ?thesis
      by (cases j2)
        (auto simp: Let_def fallback_settled [OF assms] catch_fields show_fields show_null
          error_not_loading console_log_def)
  qed
qed

text \<open>What a dispatch and a settled health check leave of the state.\<close>

lemma health_fields:
  "searchInput_value (checkServiceStatus_settled r s) = searchInput_value s"
  "isSearching (checkServiceStatus_settled r s) = isSearching s"
  "requests (checkServiceStatus_settled r s) = requests s"
  "search (checkServiceStatus_settled r s) = search s"
  by (simp_all add: checkServiceStatus_settled_def popup_defs split: fetch_result.splits)

lemma searchMemories_fields:
  "requests (searchMemories v s) =
     requests s @ (if trim v = [] then []
                   else case encodeURIComponent v of None \<Rightarrow> [] | Some q \<Rightarrow> [cascading_url q])"
  "search (searchMemories v s) =
     (if trim v = [] then search s
      else case encodeURIComponent v of None \<Rightarrow> Idle | Some q \<Rightarrow> AwaitPrimary v)"
  "isSearching (searchMemories v s) =
     (if trim v = [] then isSearching s
      else case encodeURIComponent v of None \<Rightarrow> False | Some q \<Rightarrow> True)"
  by (simp_all add: searchMemories_def Let_def catch_fields showEmptyState_def set_innerHTML_def
      fetch_def setLoading_def split: option.splits)

text \<open>The run of a dispatched search, for every outcome of its four promises.\<close>

lemma script_settles:
  assumes "\<not> isSearching s" and "trim (searchInput_value s) \<noteq> []"
  shows
    \<open>let t = run [Click, FetchSettled r1, JsonSettled j1, FetchSettled r2, JsonSettled j2] s;
         failed = (\<lambda>msg. memoriesContainer_innerHTML t
                     = js ''<div class="error">Failed to search memories: '' @ escapeHtml msg
                       @ js ''</div>'');
         primary_ok = (\<exists>status. r1 = Responded status \<and> response_ok status);
         primary_empty = (\<exists>data. j1 = JsonParsed data
                            \<and> (results data = None \<or> results data = Some []))
     in search t = Idle \<and> \<not> isSearching t \<and> \<not> searchButton_disabled t
        \<and> searchButton_textContent t = js ''Search Memories''
        \<and> memoriesContainer_innerHTML t \<noteq> loading_html
        \<and> (encodeURIComponent (searchInput_value s) = None \<longrightarrow> failed (js ''URI malformed''))
        \<and> (encodeURIComponent (searchInput_value s) \<noteq> None \<longrightarrow>
             (\<forall>msg. r1 = Rejected msg \<longrightarrow> failed msg)
           \<and> (\<forall>status. r1 = Responded status \<and> \<not> response_ok status
                 \<longrightarrow> failed (js ''HTTP error! status: '' @ show_nat status))
           \<and> (\<forall>msg. primary_ok \<and> j1 = JsonFailed msg \<longrightarrow> failed msg)
           \<and> (primary_ok \<and> j1 = JsonNull \<longrightarrow> failed null_results_error)
           \<and> (\<forall>msg. primary_ok \<and> primary_empty \<and> r2 = Rejected msg \<longrightarrow> failed msg)
           \<and> (\<forall>status. primary_ok \<and> primary_empty \<and> r2 = Responded status
                   \<and> \<not> response_ok status
                 \<longrightarrow> failed (js ''HTTP error! status: '' @ show_nat status))
           \<and> (\<forall>status msg. primary_ok \<and> primary_empty \<and> r2 = Responded status
                   \<and> response_ok status \<and> j2 = JsonFailed msg \<longrightarrow> failed msg)
           \<and> (\<forall>status. primary_ok \<and> primary_empty \<and> r2 = Responded status
                   \<and> response_ok status \<and> j2 = JsonNull \<longrightarrow> failed null_results_error)
           \<and> (\<forall>data entries. primary_ok \<and> j1 = JsonParsed data \<and> results data = Some entries
                   \<and> None \<in> set entries \<longrightarrow> failed null_entry_error)
           \<and> (\<forall>status data entries. primary_ok \<and> primary_empty \<and> r2 = Responded status
                   \<and> response_ok status \<and> j2 = JsonParsed data
                   \<and> results data = Some entries \<and> None \<in> set entries
                 \<longrightarrow> failed null_entry_error))\<close>
proof -
  define v where "v = searchInput_value s"
  define t0 where "t0 = step Click s"
  have run: "run [Click, FetchSettled r1, JsonSettled j1, FetchSettled r2, JsonSettled j2] s
               = json_settled j2 (fetch_settled r2 (json_settled j1 (fetch_settled r1 t0)))"
    by (simp add: run_def t0_def)
  show ?thesis
  proof (cases "encodeURIComponent v")
    case None
    then have "t0 = searchMemories_catch (js ''URI malformed'') (setLoading True s)"
      using dispatch [OF assms] by (simp add: t0_def v_def)
    then show ?thesis
      unfolding run using None
      by (simp add: Let_def catch_fields error_not_loading v_def)
  next
    case (Some q)
    then have t0: "t0 = (fetch (cascading_url q) (setLoading True s))\<lparr>search := AwaitPrimary v\<rparr>"
      using dispatch [OF assms] by (simp add: t0_def v_def)
    then have p0: "search t0 = AwaitPrimary v" by simp
    show ?thesis
    proof (cases r1)
      case (Rejected msg)
      then show ?thesis
        unfolding run using Some
        by (simp add: Let_def primary_settled [OF p0] catch_fields error_not_loading v_def)
    next
      case (Responded status)
      show ?thesis
      proof (cases "response_ok status")
        case False
        with Responded show ?thesis
          unfolding run using Some
          by (simp add: Let_def primary_settled [OF p0] catch_fields error_not_loading v_def
              http_error_def)
      next
        case True
        define t1 where "t1 = t0\<lparr>search := AwaitPrimaryJson v\<rparr>"
        have t1: "fetch_settled r1 t0 = t1"
          using Responded True by (simp add: primary_settled [OF p0] t1_def)
        have p1: "search t1 = AwaitPrimaryJson v" by (simp add: t1_def)
        note pj = primary_json_settled [OF p1 Some]
        show ?thesis
        proof (cases j1)
          case (JsonFailed msg)
          then show ?thesis
            unfolding run t1 using Some Responded True
            by (simp add: Let_def pj catch_fields error_not_loading v_def)
        next
          case JsonNull
          then show ?thesis
            unfolding run t1 using Some Responded True
            by (simp add: Let_def pj catch_fields error_not_loading v_def)
        next
          case (JsonParsed data)
          show ?thesis
          proof (cases "results data = None \<or> results data = Some []")
            case False
            then obtain m ms where "results data = Some (m # ms)"
              by (cases "results data") (auto simp: neq_Nil_conv)
            with JsonParsed show ?thesis
              unfolding run t1 using Some Responded True
              by (auto simp: Let_def pj show_fields show_null v_def)
          next
            case True
            define t2 where "t2 = json_settled j1 t1"
            have "search t2 = AwaitFallback v"
              using JsonParsed True by (auto simp: t2_def pj)
            from fallback_ends [OF this, of j2 r2] show ?thesis
              unfolding run t1 t2_def [symmetric] using Some Responded \<open>response_ok status\<close> JsonParsed True
              by (auto simp: Let_def v_def http_error_def)
          qed
        qed
      qed
    qed
  qed
qed

text \<open>
  The variable \<^verbatim>\<open>isSearching\<close> is true exactly while a call of \<^verbatim>\<open>searchMemories\<close> is
  suspended: every event keeps this, so it holds in every state the popup reaches.
\<close>

lemma searchMemories_flag:
  assumes "\<not> isSearching s" and "search s = Idle"
  shows "isSearching (searchMemories v s) = (search (searchMemories v s) \<noteq> Idle)"
  using assms
  by (simp add: searchMemories_def Let_def catch_fields showEmptyState_def set_innerHTML_def
      fetch_def setLoading_def split: option.splits)

lemma fetch_settled_flag:
  assumes "isSearching s = (search s \<noteq> Idle)"
  shows "isSearching (fetch_settled r s) = (search (fetch_settled r s) \<noteq> Idle)"
  using assms
  by (cases "search s"; cases r) (simp_all add: fetch_settled_def catch_fields)

lemma json_settled_flag:
  assumes "isSearching s = (search s \<noteq> Idle)"
  shows "isSearching (json_settled j s) = (search (json_settled j s) \<noteq> Idle)"
  using assms
  by (cases "search s"; cases j)
    (simp_all add: json_settled_def Let_def catch_fields show_fields fetch_def console_log_def
      split: option.splits)

lemma step_flag:
  assumes "isSearching s = (search s \<noteq> Idle)"
  shows "isSearching (step e s) = (search (step e s) \<noteq> Idle)"
proof (cases e)
  case Click
  with assms show ?thesis by (simp add: searchMemories_flag)
next
  case (Keypress key)
  with assms show ?thesis by (simp add: searchMemories_flag)
next
  case (FetchSettled r)
  with assms show ?thesis by (simp add: fetch_settled_flag)
next
  case (JsonSettled j)
  with assms show ?thesis by (simp add: json_settled_flag)
next
  case (HealthSettled r)
  with assms show ?thesis
    by (simp add: checkServiceStatus_settled_def popup_defs split: fetch_result.splits)
next
  case (CardClick i)
  with assms show ?thesis by (simp add: card_clicked_def split: option.splits)
next
  case (ClipboardSettled i fulfilled)
  with assms show ?thesis
    by (simp add: clipboard_settled_def set_backgroundColor_def console_error_def Let_def)
next
  case (TimerFired i)
  with assms show ?thesis by (simp add: timer_fired_def set_backgroundColor_def)
qed (use assms in simp)

lemma reachable_flag: "reachable s \<Longrightarrow> isSearching s = (search s \<noteq> Idle)"
proof (induction rule: reachable.induct)
  case (loaded v disabled label html)
  show ?case by (simp add: DOMContentLoaded_def checkServiceStatus_def page_def fetch_def)
next
  case (event s e)
  then show ?case by (simp only: step_flag)
qed

text \<open>
  Whenever an event ends a search, the \<^verbatim>\<open>finally\<close> block has run; and once the fallback
  request is out, no event makes a request while the search lasts.
\<close>

lemma searchMemories_ends:
  assumes "search u \<noteq> Idle" and "search (searchMemories v u) = Idle"
  shows "\<not> isSearching (searchMemories v u) \<and> \<not> searchButton_disabled (searchMemories v u)
         \<and> searchButton_textContent (searchMemories v u) = js ''Search Memories''
         \<and> memoriesContainer_innerHTML (searchMemories v u) \<noteq> loading_html"
  using assms
  by (auto simp: searchMemories_def Let_def catch_fields error_not_loading showEmptyState_def
      set_innerHTML_def fetch_def split: if_splits option.splits)

lemma fetch_settled_ends:
  assumes "search u \<noteq> Idle" and "search (fetch_settled r u) = Idle"
  shows "\<not> isSearching (fetch_settled r u) \<and> \<not> searchButton_disabled (fetch_settled r u)
         \<and> searchButton_textContent (fetch_settled r u) = js ''Search Memories''
         \<and> memoriesContainer_innerHTML (fetch_settled r u) \<noteq> loading_html"
  using assms
  by (cases "search u"; cases r)
    (auto simp: fetch_settled_def catch_fields error_not_loading split: if_splits)

lemma json_settled_ends:
  assumes "search u \<noteq> Idle" and "search (json_settled j u) = Idle"
  shows "\<not> isSearching (json_settled j u) \<and> \<not> searchButton_disabled (json_settled j u)
         \<and> searchButton_textContent (json_settled j u) = js ''Search Memories''
         \<and> memoriesContainer_innerHTML (json_settled j u) \<noteq> loading_html"
  using assms
  by (cases "search u"; cases j)
    (auto simp: json_settled_def Let_def catch_fields show_fields error_not_loading fetch_def
      split: if_splits option.splits)

lemma other_events_keep_search:
  "search (card_clicked i u) = search u"
  "search (clipboard_settled i b u) = search u"
  "search (timer_fired i u) = search u"
  "search (checkServiceStatus_settled r u) = search u"
  by (simp_all add: card_clicked_def clipboard_settled_def timer_fired_def
      set_backgroundColor_def console_error_def Let_def health_fields split: option.splits)

lemma ending_step:
  assumes "search u \<noteq> Idle" and "search (step e u) = Idle"
  shows "\<not> isSearching (step e u) \<and> \<not> searchButton_disabled (step e u)
         \<and> searchButton_textContent (step e u) = js ''Search Memories''
         \<and> memoriesContainer_innerHTML (step e u) \<noteq> loading_html"
proof (cases e)
  case Click
  with assms show ?thesis by (auto simp: searchMemories_ends split: if_splits)
next
  case (Keypress key)
  with assms show ?thesis by (auto simp: searchMemories_ends split: if_splits)
next
  case (FetchSettled r)
  with assms show ?thesis by (simp add: fetch_settled_ends)
next
  case (JsonSettled j)
  with assms show ?thesis by (simp add: json_settled_ends)
next
  case (HealthSettled r)
  with assms show ?thesis by (simp add: other_events_keep_search split: if_splits)
qed (use assms in \<open>simp_all add: other_events_keep_search\<close>)



text \<open>Every card on the page was rendered from the record its listener holds.\<close>

lemma set_backgroundColor_cards:
  assumes "\<forall>c \<in> set (memoriesContainer_children s).
             \<exists>index. innerHTML c = memory_html (listener_memory c) index"
  shows "\<forall>c \<in> set (memoriesContainer_children (set_backgroundColor i colour s)).
             \<exists>index. innerHTML c = memory_html (listener_memory c) index"
  using assms by (auto simp: set_backgroundColor_def)

lemma displayMemories_cards:
  "\<forall>c \<in> set (memoriesContainer_children (fst (displayMemories entries s))).
     \<exists>index. innerHTML c = memory_html (listener_memory c) index"
  by (auto simp: displayMemories_eq memoryElement_def)

lemma catch_children: "memoriesContainer_children (searchMemories_catch msg s) = []"
  by (simp add: popup_defs)

lemma show_cards:
  "\<forall>c \<in> set (memoriesContainer_children (searchMemories_show d s)).
     \<exists>index. innerHTML c = memory_html (listener_memory c) index"
proof -
  have "memoriesContainer_children (searchMemories_show d s)
          = (case results d of
               Some (m # ms) \<Rightarrow>
                 if None \<in> set (m # ms) then []
                 else memoriesContainer_children (fst (displayMemories (m # ms) s))
             | _ \<Rightarrow> [])"
    by (simp add: searchMemories_show_eq finally_fields catch_children showEmptyState_def
        set_innerHTML_def split: option.splits list.splits)
  then show ?thesis
    using displayMemories_cards by (auto split: option.splits list.splits if_splits)
qed

lemma step_cards:
  assumes "\<forall>c \<in> set (memoriesContainer_children s).
             \<exists>index. innerHTML c = memory_html (listener_memory c) index"
  shows "\<forall>c \<in> set (memoriesContainer_children (step e s)).
             \<exists>index. innerHTML c = memory_html (listener_memory c) index"
proof (cases e)
  case (Input v)
  with assms show ?thesis by simp
next
  case Click
  with assms show ?thesis
    by (auto simp: searchMemories_def Let_def catch_children showEmptyState_def set_innerHTML_def
        setLoading_def fetch_def split: option.splits)
next
  case (Keypress key)
  with assms show ?thesis
    by (auto simp: searchMemories_def Let_def catch_children showEmptyState_def set_innerHTML_def
        setLoading_def fetch_def split: option.splits)
next
  case (CardClick i)
  with assms show ?thesis by (auto simp: card_clicked_def split: option.splits)
next
  case (HealthSettled r)
  with assms show ?thesis
    by (auto simp: checkServiceStatus_settled_def showError_def set_innerHTML_def console_log_def
        console_error_def split: fetch_result.splits)
next
  case (FetchSettled r)
  with assms show ?thesis
    by (cases "search s"; cases r) (auto simp: fetch_settled_def catch_children)
next
  case (JsonSettled j)
  show ?thesis
  proof (cases "search s")
    case (AwaitPrimaryJson v)
    with JsonSettled assms show ?thesis
      using show_cards
      by (cases j)
        (auto simp: json_settled_def Let_def catch_children fetch_def console_log_def
          split: option.splits)
  next
    case (AwaitFallbackJson v)
    with JsonSettled assms show ?thesis
      using show_cards by (cases j) (auto simp: json_settled_def catch_children)
  qed (use JsonSettled assms in \<open>simp_all add: json_settled_def\<close>)
next
  case (ClipboardSettled i fulfilled)
  with assms set_backgroundColor_cards [OF assms, of i] show ?thesis
    by (auto simp: clipboard_settled_def Let_def console_error_def set_backgroundColor_def)
next
  case (TimerFired i)
  with assms show ?thesis
    by (auto simp: timer_fired_def set_backgroundColor_def)
qed

lemma reachable_cards:
  "reachable s \<Longrightarrow>
   \<forall>c \<in> set (memoriesContainer_children s).
     \<exists>index. innerHTML c = memory_html (listener_memory c) index"
proof (induction rule: reachable.induct)
  case (loaded v disabled label html)
  show ?case by (simp add: DOMContentLoaded_def checkServiceStatus_def page_def fetch_def)
next
  case (event s e)
  from event.IH show ?case by (rule step_cards)
qed

text \<open>A popup in which the user has typed a query, for the examples below.\<close>

lemma s0_fields:
  "\<not> isSearching (step (Input v) (DOMContentLoaded (page [] False [] [])))"
  "searchInput_value (step (Input v) (DOMContentLoaded (page [] False [] []))) = v"
  "requests (step (Input v) (DOMContentLoaded (page [] False [] []))) = [test_url]"
  "created (step (Input v) (DOMContentLoaded (page [] False [] []))) = 0"
  by (simp_all add: DOMContentLoaded_def checkServiceStatus_def fetch_def page_def)

lemma trim_a: "trim (js ''a'') \<noteq> []"
  by (simp add: trim_def is_white_space_def js_def)

lemma encode_a: "encodeURIComponent (js ''a'') = Some (js ''a'')"
  by (simp add: unreserved_def js_def)

lemma trim_a_b: "trim (js ''a b'') \<noteq> []"
  by (simp add: trim_def is_white_space_def js_def)

lemma encode_a_b: "encodeURIComponent (js ''a b'') = Some (js ''a%20b'')"
  by (simp add: unreserved_def is_lead_surrogate_def is_trail_surrogate_def percent_encode_def
      utf8_def percent_octet_def hex_unit_def js_def)











section \<open>Claims about the search\<close>







text \<open>
  C4. In every state the popup can reach, a search is in flight exactly when
  \<^verbatim>\<open>isSearching\<close> is true, and then a click on the button or a key press in the input,
  Enter included, leaves the whole state as it is: no request, no change of the page.
\<close>

theorem second_submission_ignored:
  assumes "reachable s" and "search s \<noteq> Idle \<or> isSearching s"
  shows "isSearching s \<and> search s \<noteq> Idle \<and> step Click s = s \<and> step (Keypress key) s = s"
  using assms reachable_flag [OF assms(1)] by auto

theorem second_submission_ignored_witness:
  "reachable (step Click (step (Input (js ''a'')) (DOMContentLoaded (page [] False [] []))))
   \<and> search (step Click (step (Input (js ''a'')) (DOMContentLoaded (page [] False [] []))))
       = AwaitPrimary (js ''a'')
   \<and> step Click (step Click (step (Input (js ''a'')) (DOMContentLoaded (page [] False [] []))))
       = step Click (step (Input (js ''a'')) (DOMContentLoaded (page [] False [] [])))
   \<and> requests (step Click (step Click (step (Input (js ''a''))
         (DOMContentLoaded (page [] False [] [])))))
       = [test_url, cascading_url (js ''a'')]"
proof -
  let ?s = "step Click (step (Input (js ''a'')) (DOMContentLoaded (page [] False [] [])))"
  have r: "reachable ?s" by (intro reachable.intros)
  have p: "search ?s = AwaitPrimary (js ''a'')"
    by (simp add: searchMemories_def trim_a encode_a DOMContentLoaded_def checkServiceStatus_def
        page_def fetch_def setLoading_def set_innerHTML_def Let_def)
  have q: "requests ?s = [test_url, cascading_url (js ''a'')]"
    by (simp add: searchMemories_def trim_a encode_a DOMContentLoaded_def checkServiceStatus_def
        page_def fetch_def setLoading_def set_innerHTML_def Let_def)
  from p have "search ?s \<noteq> Idle \<or> isSearching ?s" by simp
  from second_submission_ignored [OF r this] p q r show ?thesis by simp
qed

text \<open>
  C5. A dispatched search ends whatever its promises settle to: after the click and the
  settlements of the primary request, its body, the fallback request and its body (those
  past the end of the search are ignored), the search is over, \<^verbatim>\<open>isSearching\<close> is false,
  the button is enabled and labelled \<^verbatim>\<open>Search Memories\<close>, and the container does not show
  the loading markup. When a request is rejected, a response is not ok, a body fails to
  parse or is \<^verbatim>\<open>null\<close>, an entry of the results is \<^verbatim>\<open>null\<close>, or the query cannot be
  encoded, the container shows \<^verbatim>\<open>Failed to search memories: \<close> followed by the message of
  that error, in which \<^verbatim>\<open>&\<close>, U+00A0, \<^verbatim>\<open><\<close> and \<^verbatim>\<open>>\<close> are replaced by \<^verbatim>\<open>&amp;\<close>,
  \<^verbatim>\<open>&nbsp;\<close>, \<^verbatim>\<open>&lt;\<close> and \<^verbatim>\<open>&gt;\<close>. In any state, whichever event ends a search leaves
  the popup in that final condition; and in any state in which a search awaits a
  response or a body, a settlement that fails ends it with that message shown.
\<close>

theorem search_always_settles:
  assumes "\<not> isSearching s" and "trim (searchInput_value s) \<noteq> []"
  shows
    \<open>let error_html = (\<lambda>msg.
           js ''<div class="error">Failed to search memories: ''
           @ concat (map (\<lambda>c. if c = 0x26 then js ''&amp;'' else if c = 0xA0 then js ''&nbsp;''
                            else if c = 0x3C then js ''&lt;'' else if c = 0x3E then js ''&gt;''
                            else [c]) msg)
           @ js ''</div>'')
     in (let t = run [Click, FetchSettled r1, JsonSettled j1, FetchSettled r2, JsonSettled j2] s;
             failed = (\<lambda>msg. memoriesContainer_innerHTML t = error_html msg);
             primary_ok = (\<exists>status. r1 = Responded status \<and> response_ok status);
             primary_empty = (\<exists>data. j1 = JsonParsed data
                                \<and> (results data = None \<or> results data = Some []))
         in search t = Idle \<and> \<not> isSearching t \<and> \<not> searchButton_disabled t
            \<and> searchButton_textContent t = js ''Search Memories''
            \<and> memoriesContainer_innerHTML t
                \<noteq> js ''<div class="loading">Searching your memories...</div>''
            \<and> (encodeURIComponent (searchInput_value s) = None
                  \<longrightarrow> failed (js ''URI malformed''))
            \<and> (encodeURIComponent (searchInput_value s) \<noteq> None \<longrightarrow>
                 (\<forall>msg. r1 = Rejected msg \<longrightarrow> failed msg)
               \<and> (\<forall>status. r1 = Responded status \<and> \<not> response_ok status
                     \<longrightarrow> failed (js ''HTTP error! status: '' @ show_nat status))
               \<and> (\<forall>msg. primary_ok \<and> j1 = JsonFailed msg \<longrightarrow> failed msg)
               \<and> (primary_ok \<and> j1 = JsonNull
                     \<longrightarrow> failed (js ''Cannot read properties of null (reading 'results')''))
               \<and> (\<forall>msg. primary_ok \<and> primary_empty \<and> r2 = Rejected msg \<longrightarrow> failed msg)
               \<and> (\<forall>status. primary_ok \<and> primary_empty \<and> r2 = Responded status
                       \<and> \<not> response_ok status
                     \<longrightarrow> failed (js ''HTTP error! status: '' @ show_nat status))
               \<and> (\<forall>status msg. primary_ok \<and> primary_empty \<and> r2 = Responded status
                       \<and> response_ok status \<and> j2 = JsonFailed msg \<longrightarrow> failed msg)
               \<and> (\<forall>status. primary_ok \<and> primary_empty \<and> r2 = Responded status
                       \<and> response_ok status \<and> j2 = JsonNull
                     \<longrightarrow> failed (js ''Cannot read properties of null (reading 'results')''))
               \<and> (\<forall>data entries. primary_ok \<and> j1 = JsonParsed data
                       \<and> results data = Some entries \<and> None \<in> set entries
                     \<longrightarrow> failed (js ''Cannot read properties of null (reading 'chunk_text')''))
               \<and> (\<forall>status data entries. primary_ok \<and> primary_empty \<and> r2 = Responded status
                       \<and> response_ok status \<and> j2 = JsonParsed data
                       \<and> results data = Some entries \<and> None \<in> set entries
                     \<longrightarrow> failed (js ''Cannot read properties of null (reading 'chunk_text')''))))
      \<and> (\<forall>u e. search u \<noteq> Idle \<and> search (step e u) = Idle \<longrightarrow>
            \<not> isSearching (step e u) \<and> \<not> searchButton_disabled (step e u)
            \<and> searchButton_textContent (step e u) = js ''Search Memories''
            \<and> memoriesContainer_innerHTML (step e u)
                \<noteq> js ''<div class="loading">Searching your memories...</div>'')
      \<and> (\<forall>u v msg status.
            search u = AwaitPrimary v \<or> search u = AwaitFallback v \<longrightarrow>
              search (step (FetchSettled (Rejected msg)) u) = Idle
              \<and> memoriesContainer_innerHTML (step (FetchSettled (Rejected msg)) u)
                  = error_html msg
              \<and> (\<not> response_ok status \<longrightarrow>
                    search (step (FetchSettled (Responded status)) u) = Idle
                    \<and> memoriesContainer_innerHTML (step (FetchSettled (Responded status)) u)
                        = error_html (js ''HTTP error! status: '' @ show_nat status)))
      \<and> (\<forall>u v msg data entries.
            search u = AwaitPrimaryJson v \<or> search u = AwaitFallbackJson v \<longrightarrow>
              search (step (JsonSettled (JsonFailed msg)) u) = Idle
              \<and> memoriesContainer_innerHTML (step (JsonSettled (JsonFailed msg)) u)
                  = error_html msg
              \<and> search (step (JsonSettled JsonNull) u) = Idle
              \<and> memoriesContainer_innerHTML (step (JsonSettled JsonNull) u)
                  = error_html (js ''Cannot read properties of null (reading 'results')'')
              \<and> (results data = Some entries \<and> None \<in> set entries \<longrightarrow>
                    search (step (JsonSettled (JsonParsed data)) u) = Idle
                    \<and> memoriesContainer_innerHTML (step (JsonSettled (JsonParsed data)) u)
                        = error_html
                            (js ''Cannot read properties of null (reading 'chunk_text')'')))\<close>
proof -
  have ending: "\<forall>u e. search u \<noteq> Idle \<and> search (step e u) = Idle \<longrightarrow>
             \<not> isSearching (step e u) \<and> \<not> searchButton_disabled (step e u)
             \<and> searchButton_textContent (step e u) = js ''Search Memories''
             \<and> memoriesContainer_innerHTML (step e u) \<noteq> loading_html"
    using ending_step by blast
  have fetches: "\<forall>u v msg status.
            search u = AwaitPrimary v \<or> search u = AwaitFallback v \<longrightarrow>
              search (step (FetchSettled (Rejected msg)) u) = Idle
              \<and> memoriesContainer_innerHTML (step (FetchSettled (Rejected msg)) u)
                  = js ''<div class=\"error\">Failed to search memories: '' @ escapeHtml msg
                    @ js ''</div>''
              \<and> (\<not> response_ok status \<longrightarrow>
                    search (step (FetchSettled (Responded status)) u) = Idle
                    \<and> memoriesContainer_innerHTML (step (FetchSettled (Responded status)) u)
                        = js ''<div class=\"error\">Failed to search memories: ''
                          @ escapeHtml (http_error status) @ js ''</div>'')"
    by (auto simp: fetch_settled_def catch_fields)
  have bodies: "\<forall>u v msg data entries.
            search u = AwaitPrimaryJson v \<or> search u = AwaitFallbackJson v \<longrightarrow>
              search (step (JsonSettled (JsonFailed msg)) u) = Idle
              \<and> memoriesContainer_innerHTML (step (JsonSettled (JsonFailed msg)) u)
                  = js ''<div class=\"error\">Failed to search memories: '' @ escapeHtml msg
                    @ js ''</div>''
              \<and> search (step (JsonSettled JsonNull) u) = Idle
              \<and> memoriesContainer_innerHTML (step (JsonSettled JsonNull) u)
                  = js ''<div class=\"error\">Failed to search memories: ''
                    @ escapeHtml null_results_error @ js ''</div>''
              \<and> (results data = Some entries \<and> None \<in> set entries \<longrightarrow>
                    search (step (JsonSettled (JsonParsed data)) u) = Idle
                    \<and> memoriesContainer_innerHTML (step (JsonSettled (JsonParsed data)) u)
                        = js ''<div class=\"error\">Failed to search memories: ''
                          @ escapeHtml null_entry_error @ js ''</div>'')"
    by (auto simp: json_settled_def Let_def catch_fields show_fields show_null)
  have escaped:
    "escapeHtml t =
       concat (map (\<lambda>c. if c = 0x26 then js ''&amp;'' else if c = 0xA0 then js ''&nbsp;''
                        else if c = 0x3C then js ''&lt;'' else if c = 0x3E then js ''&gt;''
                        else [c]) t)" for t
    by (simp add: escapeHtml_def set_textContent_def get_innerHTML_def escape_string_def
        escape_unit_def [abs_def])
  have messages:
    "null_results_error = js ''Cannot read properties of null (reading 'results')''"
    "null_entry_error = js ''Cannot read properties of null (reading 'chunk_text')''"
    by (simp_all add: null_results_error_def null_entry_error_def js_def)
  note by_value = Let_def escaped messages loading_html_def http_error_def
  note script = script_settles [OF assms, of r1 j1 r2 j2]
  show ?thesis
    unfolding Let_def
    by (rule conjI [OF script [unfolded by_value]
          conjI [OF ending [unfolded by_value]
            conjI [OF fetches [unfolded by_value] bodies [unfolded by_value]]]])
qed

theorem search_always_settles_witness:
  \<open>trim (js ''a b'') \<noteq> []
   \<and> \<not> isSearching (run [Click, FetchSettled (Responded 500), JsonSettled (JsonFailed []),
                          FetchSettled (Rejected []), JsonSettled (JsonFailed [])]
        (step (Input (js ''a b'')) (DOMContentLoaded (page [] False [] []))))
   \<and> memoriesContainer_innerHTML
        (run [Click, FetchSettled (Responded 500), JsonSettled (JsonFailed []),
              FetchSettled (Rejected []), JsonSettled (JsonFailed [])]
        (step (Input (js ''a b'')) (DOMContentLoaded (page [] False [] []))))
     = js ''<div class="error">Failed to search memories: HTTP error! status: 500</div>''
   \<and> memoriesContainer_innerHTML
        (run [Click, FetchSettled (Responded 200),
              JsonSettled (JsonFailed
                (js ''Unexpected token '<', "<html>&nbs"... is not valid JSON'')),
              FetchSettled (Rejected []), JsonSettled (JsonFailed [])]
        (step (Input (js ''a b'')) (DOMContentLoaded (page [] False [] []))))
     = js ''<div class="error">Failed to search memories: Unexpected token '&lt;', "&lt;html&gt;&amp;nbs"... is not valid JSON</div>''\<close>
proof -
  let ?s = "step (Input (js ''a b'')) (DOMContentLoaded (page [] False [] []))"
  have t: "trim (searchInput_value ?s) \<noteq> []" by (simp only: s0_fields trim_a_b) simp
  have e: "encodeURIComponent (searchInput_value ?s) = Some (js ''a%20b'')"
    by (simp only: s0_fields encode_a_b)
  have n: "\<not> response_ok 500" by (simp add: response_ok_def)
  have ok: "response_ok 200" by (simp add: response_ok_def)
  note status = search_always_settles [OF s0_fields(1) t, of "Responded 500" "JsonFailed []"
      "Rejected []" "JsonFailed []", unfolded Let_def, THEN conjunct1]
  note body = search_always_settles [OF s0_fields(1) t, of "Responded 200"
      "JsonFailed (js ''Unexpected token '<', \"<html>&nbs\"... is not valid JSON'')"
      "Rejected []" "JsonFailed []", unfolded Let_def, THEN conjunct1]
  from status e n have
    "\<not> isSearching (run [Click, FetchSettled (Responded 500), JsonSettled (JsonFailed []),
                          FetchSettled (Rejected []), JsonSettled (JsonFailed [])] ?s)"
    "memoriesContainer_innerHTML
        (run [Click, FetchSettled (Responded 500), JsonSettled (JsonFailed []),
              FetchSettled (Rejected []), JsonSettled (JsonFailed [])] ?s)
     = js ''<div class=\"error\">Failed to search memories: HTTP error! status: 500</div>''"
    by (simp_all add: show_nat.simps digit_unit_def js_def del: step.simps)
  moreover from body e ok have
    "memoriesContainer_innerHTML
        (run [Click, FetchSettled (Responded 200),
              JsonSettled (JsonFailed
                (js ''Unexpected token '<', \"<html>&nbs\"... is not valid JSON'')),
              FetchSettled (Rejected []), JsonSettled (JsonFailed [])] ?s)
     = js ''<div class=\"error\">Failed to search memories: Unexpected token '&lt;', \"&lt;html&gt;&amp;nbs\"... is not valid JSON</div>''"
    by (simp add: js_def del: step.simps)
  moreover have
    "memoriesContainer_innerHTML
        (run [Click, FetchSettled (Responded 500), JsonSettled (JsonFailed []),
              FetchSettled (Rejected []), JsonSettled (JsonFailed [])] ?s)
     = js ''<div class=\"error\">Failed to search memories: HTTP error! status: 500</div>''"
    "memoriesContainer_innerHTML
        (run [Click, FetchSettled (Responded 200),
              JsonSettled (JsonFailed
                (js ''Unexpected token '<', \"<html>&nbs\"... is not valid JSON'')),
              FetchSettled (Rejected []), JsonSettled (JsonFailed [])] ?s)
     = js ''<div class=\"error\">Failed to search memories: Unexpected token '&lt;', \"&lt;html&gt;&amp;nbs\"... is not valid JSON</div>''"
    by (simp_all add: run_def searchMemories_def trim_a_b encode_a_b fetch_settled_def
        json_settled_def response_ok_def DOMContentLoaded_def checkServiceStatus_def page_def
        popup_defs Let_def http_error_def)
      (simp_all add: escapeHtml_def set_textContent_def get_innerHTML_def escape_string_def
        escape_unit_def show_nat.simps digit_unit_def js_def)
  ultimately show ?thesis using trim_a_b by (simp only: simp_thms)
qed

text \<open>
  C6 (as amended). When the health check is rejected (a network failure), the container
  shows the fixed message. When it is answered, with whatever status, the answer is only
  logged: nothing on the page changes. What a later click dispatches does not depend on
  how the health check has settled.
\<close>

theorem health_check_advisory:
  assumes "health_pending s"
  shows
    \<open>memoriesContainer_innerHTML (step (HealthSettled (Rejected msg)) s)
       = js ''<div class="error">Memory service is not available. Please make sure it''
         @ [0x27] @ js ''s running on localhost:8000</div>''
     \<and> step (HealthSettled (Responded status)) s
       = s\<lparr>health_pending := False,
            console := console s
              @ [Log (if response_ok status then js ''Memory service is running''
                      else js ''Memory service responded but with error'')]\<rparr>
     \<and> requests (step Click (step (HealthSettled r) s)) = requests (step Click s)
     \<and> search (step Click (step (HealthSettled r) s)) = search (step Click s)
     \<and> isSearching (step Click (step (HealthSettled r) s)) = isSearching (step Click s)\<close>
proof -
  have "escapeHtml (js ''Memory service is not available. Please make sure it'' @ [0x27]
            @ js ''s running on localhost:8000'')
          = js ''Memory service is not available. Please make sure it'' @ [0x27]
            @ js ''s running on localhost:8000''"
    by (simp add: escapeHtml_eq escape_unit_def js_def)
  then have "memoriesContainer_innerHTML (step (HealthSettled (Rejected msg)) s)
       = js ''<div class=\"error\">Memory service is not available. Please make sure it''
         @ [0x27] @ js ''s running on localhost:8000</div>''"
    using assms
    by (simp add: checkServiceStatus_settled_def showError_def set_innerHTML_def console_error_def)
      (simp add: js_def)
  moreover have "step (HealthSettled (Responded status)) s
       = s\<lparr>health_pending := False,
            console := console s
              @ [Log (if response_ok status then js ''Memory service is running''
                      else js ''Memory service responded but with error'')]\<rparr>"
    using assms by (simp add: checkServiceStatus_settled_def console_log_def)
  moreover have "requests (step Click (step (HealthSettled r) s)) = requests (step Click s)"
    "search (step Click (step (HealthSettled r) s)) = search (step Click s)"
    "isSearching (step Click (step (HealthSettled r) s)) = isSearching (step Click s)"
    using assms by (simp_all add: health_fields searchMemories_fields)
  ultimately show ?thesis by (simp only: simp_thms)
qed

theorem health_check_advisory_witness:
  \<open>health_pending (DOMContentLoaded (page [] False [] []))
   \<and> step (HealthSettled (Responded 404)) (DOMContentLoaded (page [] False [] []))
     = (DOMContentLoaded (page [] False [] []))
         \<lparr>health_pending := False,
          console := [Log (js ''Memory service responded but with error'')]\<rparr>
   \<and> memoriesContainer_innerHTML
        (step (HealthSettled (Rejected (js ''Failed to fetch''))) (DOMContentLoaded (page [] False [] [])))
     = js ''<div class="error">Memory service is not available. Please make sure it''
       @ [0x27] @ js ''s running on localhost:8000</div>''\<close>
proof -
  let ?s = "DOMContentLoaded (page [] False [] [])"
  have h: "health_pending ?s"
    by (simp add: DOMContentLoaded_def checkServiceStatus_def fetch_def page_def)
  have c: "console ?s = []"
    by (simp add: DOMContentLoaded_def checkServiceStatus_def fetch_def page_def)
  have n: "\<not> response_ok 404" by (simp add: response_ok_def)
  from health_check_advisory [OF h, of "js ''Failed to fetch''" 404] h c n show ?thesis
    by (simp del: step.simps)
qed

text \<open>
  C6 as stated says that a response that is not 2xx surfaces the error message too. With
  status 500 the container stays as the page had it, and the console gets one line.
\<close>

theorem health_check_status_counterexample:
  "\<not> response_ok 500
   \<and> memoriesContainer_innerHTML
        (step (HealthSettled (Responded 500)) (DOMContentLoaded (page [] False [] []))) = []
   \<and> memoriesContainer_innerHTML (DOMContentLoaded (page [] False [] [])) = []
   \<and> console (step (HealthSettled (Responded 500)) (DOMContentLoaded (page [] False [] [])))
       = [Log (js ''Memory service responded but with error'')]"
  by (simp add: response_ok_def DOMContentLoaded_def checkServiceStatus_def fetch_def page_def
      checkServiceStatus_settled_def console_log_def)

text \<open>
  C7. When the input holds only white space (or nothing) and the popup is not searching,
  a click, like the Enter key, changes nothing but the container, which shows
  \<^verbatim>\<open>Please enter a search query\<close>: no request is made, \<^verbatim>\<open>isSearching\<close> stays false, no
  search is started and the button is as it was.
\<close>

theorem blank_query_not_dispatched:
  assumes "\<forall>c \<in> set (searchInput_value s). is_white_space c" and "\<not> isSearching s"
  shows
    \<open>step Click s
       = s\<lparr>memoriesContainer_innerHTML :=
              js ''<div class="empty-state">Please enter a search query</div>'',
            memoriesContainer_children := []\<rparr>
     \<and> step (Keypress (js ''Enter'')) s = step Click s
     \<and> requests (step Click s) = requests s
     \<and> \<not> isSearching (step Click s)
     \<and> search (step Click s) = search s
     \<and> searchButton_disabled (step Click s) = searchButton_disabled s\<close>
proof -
  have "trim (searchInput_value s) = []" using assms(1) by (rule trim_blank)
  moreover have "escapeHtml (js ''Please enter a search query'') = js ''Please enter a search query''"
    by (simp add: escapeHtml_eq escape_unit_def js_def)
  ultimately show ?thesis
    using assms(2) by (simp add: searchMemories_def showEmptyState_def set_innerHTML_def)
      (simp add: js_def)
qed

theorem blank_query_not_dispatched_witness:
  \<open>is_white_space 0x20 \<and> is_white_space 0xA0 \<and> is_white_space 0x09
   \<and> step Click (step (Input [0x20, 0xA0, 0x09]) (DOMContentLoaded (page [] False [] [])))
     = (step (Input [0x20, 0xA0, 0x09]) (DOMContentLoaded (page [] False [] [])))
         \<lparr>memoriesContainer_innerHTML :=
            js ''<div class="empty-state">Please enter a search query</div>'',
          memoriesContainer_children := []\<rparr>
   \<and> requests (step Click (step (Input [0x20, 0xA0, 0x09])
        (DOMContentLoaded (page [] False [] [])))) = [test_url]\<close>
proof -
  let ?s = "step (Input [0x20, 0xA0, 0x09]) (DOMContentLoaded (page [] False [] []))"
  have w: "\<forall>c \<in> set [0x20, 0xA0, 0x09 :: code_unit]. is_white_space c"
    by (simp add: is_white_space_def)
  have v: "searchInput_value ?s = [0x20, 0xA0, 0x09]" by simp
  have i: "\<not> isSearching ?s"
    by (simp add: DOMContentLoaded_def checkServiceStatus_def fetch_def page_def)
  have q: "requests ?s = [test_url]"
    by (simp add: DOMContentLoaded_def checkServiceStatus_def fetch_def page_def)
  have u: "is_white_space 0x20 \<and> is_white_space 0xA0 \<and> is_white_space 0x09"
    by (simp add: is_white_space_def)
  from blank_query_not_dispatched [of ?s] w v i q u show ?thesis
    by (simp del: step.simps)
qed

section \<open>Claims about rendering\<close>

text \<open>
  C9 (as amended). \<^verbatim>\<open>escapeHtml\<close> works code unit by code unit. It replaces \<^verbatim>\<open>&\<close>, \<^verbatim>\<open><\<close>,
  \<^verbatim>\<open>>\<close> and also U+00A0 NO-BREAK SPACE by their character references and leaves every
  other code unit, the double and the single quote among them, as it is. \<^verbatim>\<open>showError\<close>
  and \<^verbatim>\<open>showEmptyState\<close> put their message through the same function before it
  becomes the markup of the container.
\<close>

theorem escapeHtml_replaces:
  \<open>escapeHtml (a @ b) = escapeHtml a @ escapeHtml b
   \<and> escapeHtml [0x26] = js ''&amp;'' \<and> escapeHtml [0x3C] = js ''&lt;''
   \<and> escapeHtml [0x3E] = js ''&gt;'' \<and> escapeHtml [0xA0] = js ''&nbsp;''
   \<and> (c \<notin> {0x26, 0x3C, 0x3E, 0xA0} \<longrightarrow> escapeHtml [c] = [c])
   \<and> escapeHtml [0x22] = [0x22] \<and> escapeHtml [0x27] = [0x27]
   \<and> memoriesContainer_innerHTML (showError message s)
       = js ''<div class="error">'' @ escapeHtml message @ js ''</div>''
   \<and> memoriesContainer_innerHTML (showEmptyState message s)
       = js ''<div class="empty-state">'' @ escapeHtml message @ js ''</div>''\<close>
  by (simp add: escapeHtml_append escapeHtml_Cons escape_unit_def showError_def
      showEmptyState_def set_innerHTML_def)

theorem escapeHtml_replaces_witness:
  "(0x61 :: code_unit) \<notin> {0x26, 0x3C, 0x3E, 0xA0} \<and> escapeHtml [0x61] = [0x61]"
  using escapeHtml_replaces [of "[]" "[]" "0x61"] by simp

text \<open>
  C9 as stated says that only \<^verbatim>\<open>&\<close>, \<^verbatim>\<open><\<close> and \<^verbatim>\<open>>\<close> are replaced. The string that
  consists of U+00A0 comes back as \<^verbatim>\<open>&nbsp;\<close>.
\<close>

theorem escapeHtml_nbsp_counterexample:
  "escapeHtml [0xA0] = js ''&nbsp;'' \<and> escapeHtml [0xA0] \<noteq> [0xA0]"
  by (simp add: escapeHtml_Cons escape_unit_def js_def)

text \<open>
  C3. The card of the \<open>i\<close>-th record of a rendered list carries the record's text
  escaped: the markup holds no \<^verbatim>\<open><\<close> and no \<^verbatim>\<open>>\<close> in its place, and a parser reads the
  text back unchanged, so that \<^verbatim>\<open><script>\<close> is shown as text. The text is \<^verbatim>\<open>chunk_text\<close>;
  when that is absent or empty it is \<^verbatim>\<open>text\<close>; when that is absent or empty too it is
  the placeholder \<^verbatim>\<open>No text available\<close>.
\<close>

theorem card_text_escaped:
  assumes "i < length memories"
  shows
    \<open>let m = memories ! i;
         shown = or_else (chunk_text m) (or_else (text' m) (js ''No text available''))
     in innerHTML (memoriesContainer_children (fst (displayMemories (map Some memories) st)) ! i)
          = js ''\<newline>        <div class="memory-text">'' @ escapeHtml shown
            @ js ''</div>\<newline>        <div class="memory-meta">\<newline>          <span>Score: ''
            @ toFixed1 (multiply (to_number (score m)) hundred)
            @ js ''%</span>\<newline>          <span>Memory #'' @ show_nat (i + 1)
            @ js ''</span>\<newline>        </div>\<newline>      ''
        \<and> 0x3C \<notin> set (escapeHtml shown) \<and> 0x3E \<notin> set (escapeHtml shown)
        \<and> text_of_html (escapeHtml shown) = shown
        \<and> (\<forall>c. chunk_text m = Some c \<and> c \<noteq> [] \<longrightarrow> shown = c)
        \<and> (\<forall>t. (chunk_text m = None \<or> chunk_text m = Some []) \<and> text' m = Some t \<and> t \<noteq> []
               \<longrightarrow> shown = t)
        \<and> ((chunk_text m = None \<or> chunk_text m = Some [])
             \<and> (text' m = None \<or> text' m = Some []) \<longrightarrow> shown = js ''No text available'')
        \<and> escapeHtml (js ''<script>'') = js ''&lt;script&gt;''\<close>
proof -
  have example: "escapeHtml (js ''<script>'') = js ''&lt;script&gt;''"
    by (simp add: escapeHtml_eq escape_unit_def js_def)
  have card: "innerHTML (memoriesContainer_children
                  (fst (displayMemories (map Some memories) st)) ! i)
                = memory_html (memories ! i) i"
    using assms by (simp add: children_nth memoryElement_def)
  show ?thesis
    unfolding Let_def card
    by (auto simp: memory_html_def no_markup text_of_html_escapeHtml example or_else_def)
qed

theorem card_text_escaped_witness:
  \<open>(0::nat) < length [\<lparr>chunk_text = Some (js ''<script>alert(1)</script>''), text' = None,
                         score = Some (decimal 953 3)\<rparr>]
   \<and> innerHTML (memoriesContainer_children
        (fst (displayMemories
           (map Some [\<lparr>chunk_text = Some (js ''<script>alert(1)</script>''), text' = None,
                       score = Some (decimal 953 3)\<rparr>]) (page [] False [] []))) ! 0)
      = js ''\<newline>        <div class="memory-text">&lt;script&gt;alert(1)&lt;/script&gt;</div>\<newline>        <div class="memory-meta">\<newline>          <span>Score: ''
        @ toFixed1 (multiply (decimal 953 3) hundred)
        @ js ''%</span>\<newline>          <span>Memory #1</span>\<newline>        </div>\<newline>      ''\<close>
proof -
  let ?m = "\<lparr>chunk_text = Some (js ''<script>alert(1)</script>''), text' = None,
             score = Some (decimal 953 3)\<rparr>"
  have evaluated:
    "innerHTML (memoriesContainer_children
        (fst (displayMemories (map Some [?m]) (page [] False [] []))) ! 0)
      = js ''\<newline>        <div class=\"memory-text\">&lt;script&gt;alert(1)&lt;/script&gt;</div>\<newline>        <div class=\"memory-meta\">\<newline>          <span>Score: ''
        @ toFixed1 (multiply (decimal 953 3) hundred)
        @ js ''%</span>\<newline>          <span>Memory #1</span>\<newline>        </div>\<newline>      ''"
    by (simp add: displayMemories_def set_innerHTML_def page_def memoryElement_def
        memory_html_def to_number_def)
      (simp add: or_else_def escapeHtml_def set_textContent_def get_innerHTML_def
        escape_string_def escape_unit_def show_nat.simps digit_unit_def js_def)
  from card_text_escaped [of 0 "[?m]" "page [] False [] []"] evaluated show ?thesis
    by (simp add: Let_def or_else_def escapeHtml_eq escape_unit_def to_number_def
        show_nat.simps digit_unit_def js_def)
qed

text \<open>
  C8 (as amended). Every card carries the label \<^verbatim>\<open>Memory #\<close> followed by its position
  in the list counted from 1, and shows \<^verbatim>\<open>(memory.score * 100).toFixed(1)\<close> followed by
  \<^verbatim>\<open>%\<close>. When the record has a score and \<^verbatim>\<open>score * 100\<close>, the product computed in
  double precision, is finite with absolute value below \<open>10^21\<close>, what the card shows
  is the sign, then \<open>n / 10\<close> written with one fraction digit, where \<open>n\<close> is the
  absolute value times ten rounded to the nearest integer (half up), then \<^verbatim>\<open>%\<close>; it
  differs from the product by at most \<open>1/20\<close>.
\<close>

theorem score_display:
  assumes "i < length memories"
  shows
    \<open>let markup = innerHTML (memoriesContainer_children
                  (fst (displayMemories (map Some memories) st)) ! i);
         before = js ''\<newline>        <div class="memory-text">''
            @ escapeHtml (or_else (chunk_text (memories ! i))
                (or_else (text' (memories ! i)) (js ''No text available'')))
            @ js ''</div>\<newline>        <div class="memory-meta">\<newline>          <span>Score: '';
         after = js ''%</span>\<newline>          <span>Memory #'' @ show_nat (i + 1)
            @ js ''</span>\<newline>        </div>\<newline>      ''
     in markup = before @ toFixed1 (multiply (to_number (score (memories ! i))) hundred) @ after
        \<and> (\<forall>x s m e.
              score (memories ! i) = Some x \<and> multiply x hundred = Finite s m e
              \<and> abs_value m e < 10 ^ 21 \<longrightarrow>
                (let n = nat \<lfloor>10 * abs_value m e + 1 / 2\<rfloor>
                 in markup = before @ (if s \<and> m \<noteq> 0 then js ''-'' else [])
                           @ show_nat (n div 10) @ js ''.'' @ show_nat (n mod 10) @ after
                    \<and> \<bar>of_nat n / 10 - abs_value m e\<bar> \<le> 1 / 20))\<close>
proof -
  have card: "innerHTML (memoriesContainer_children
                  (fst (displayMemories (map Some memories) st)) ! i)
                = memory_html (memories ! i) i"
    using assms(1) by (simp add: children_nth memoryElement_def)
  have shown: "toFixed1 (multiply (to_number (score (memories ! i))) hundred)
          = (if s \<and> m \<noteq> 0 then js ''-'' else [])
            @ show_nat (nat \<lfloor>10 * abs_value m e + 1 / 2\<rfloor> div 10) @ js ''.''
            @ show_nat (nat \<lfloor>10 * abs_value m e + 1 / 2\<rfloor> mod 10)"
    if "score (memories ! i) = Some x" and "multiply x hundred = Finite s m e"
      and "abs_value m e < 10 ^ 21" for x s m e
    using that(1,2) toFixed1_finite [OF that(3)] by (simp add: to_number_def)
  show ?thesis
    unfolding Let_def card
  proof (intro conjI allI impI)
    show "memory_html (memories ! i) i
            = (js ''\<newline>        <div class=\"memory-text\">''
            @ escapeHtml (or_else (chunk_text (memories ! i))
                (or_else (text' (memories ! i)) (js ''No text available'')))
            @ js ''</div>\<newline>        <div class=\"memory-meta\">\<newline>          <span>Score: '')
            @ toFixed1 (multiply (to_number (score (memories ! i))) hundred)
            @ js ''%</span>\<newline>          <span>Memory #'' @ show_nat (i + 1)
            @ js ''</span>\<newline>        </div>\<newline>      ''"
      by (simp add: memory_html_def)
  next
    fix x s m e
    assume "score (memories ! i) = Some x \<and> multiply x hundred = Finite s m e
              \<and> abs_value m e < 10 ^ 21"
    then have "score (memories ! i) = Some x" "multiply x hundred = Finite s m e"
      "abs_value m e < 10 ^ 21" by simp_all
    from shown [OF this]
    show "memory_html (memories ! i) i
            = (js ''\<newline>        <div class=\"memory-text\">''
            @ escapeHtml (or_else (chunk_text (memories ! i))
                (or_else (text' (memories ! i)) (js ''No text available'')))
            @ js ''</div>\<newline>        <div class=\"memory-meta\">\<newline>          <span>Score: '')
            @ (if s \<and> m \<noteq> 0 then js ''-'' else [])
            @ show_nat (nat \<lfloor>10 * abs_value m e + 1 / 2\<rfloor> div 10) @ js ''.''
            @ show_nat (nat \<lfloor>10 * abs_value m e + 1 / 2\<rfloor> mod 10)
            @ js ''%</span>\<newline>          <span>Memory #'' @ show_nat (i + 1)
            @ js ''</span>\<newline>        </div>\<newline>      ''"
      by (simp add: memory_html_def)
  next
    fix m e
    show "\<bar>of_nat (nat \<lfloor>10 * abs_value m e + 1 / 2\<rfloor>) / 10 - abs_value m e\<bar> \<le> 1 / 20"
      using nearest_tenth [of m e] by simp
  qed
qed

text \<open>The score 0.953 is shown as \<^verbatim>\<open>95.3%\<close>, on the card labelled \<^verbatim>\<open>Memory #1\<close>.\<close>

theorem score_display_witness:
  \<open>(0::nat) < length [\<lparr>chunk_text = Some (js ''a''), text' = None, score = Some (decimal 953 3)\<rparr>]
   \<and> multiply (decimal 953 3) hundred = Finite False 6706141320131379 (- 46)
   \<and> abs_value 6706141320131379 (- 46) < 10 ^ 21
   \<and> nat \<lfloor>10 * abs_value 6706141320131379 (- 46) + 1 / 2\<rfloor> = 953
   \<and> innerHTML (memoriesContainer_children
        (fst (displayMemories
           (map Some [\<lparr>chunk_text = Some (js ''a''), text' = None,
                       score = Some (decimal 953 3)\<rparr>]) (page [] False [] []))) ! 0)
      = js ''\<newline>        <div class="memory-text">a</div>\<newline>        <div class="memory-meta">\<newline>          <span>Score: 95.3%</span>\<newline>          <span>Memory #1</span>\<newline>        </div>\<newline>      ''\<close>
proof -
  let ?m = "\<lparr>chunk_text = Some (js ''a''), text' = None, score = Some (decimal 953 3)\<rparr>"
  have i: "(0::nat) < length [?m]" by simp
  note card = score_display [OF i, of "page [] False [] []", unfolded Let_def, THEN conjunct2,
      rule_format, of "decimal 953 3" False 6706141320131379 "- 46", THEN conjunct1]
  have scored: "score ([?m] ! 0) = Some (decimal 953 3)
          \<and> multiply (decimal 953 3) hundred = Finite False 6706141320131379 (- 46)
          \<and> abs_value 6706141320131379 (- 46) < 10 ^ 21"
    using product_953 below_953 by simp
  have evaluated:
    "innerHTML (memoriesContainer_children
        (fst (displayMemories (map Some [?m]) (page [] False [] []))) ! 0)
      = js ''\<newline>        <div class=\"memory-text\">a</div>\<newline>        <div class=\"memory-meta\">\<newline>          <span>Score: 95.3%</span>\<newline>          <span>Memory #1</span>\<newline>        </div>\<newline>      ''"
    by (simp add: displayMemories_def set_innerHTML_def page_def memoryElement_def
        memory_html_def to_number_def)
      (simp add: or_else_def decimal_def hundred_def ratio_of_def round_defs floor_log2_def
        floor_log2_from_def bit_length.simps toFixed1_def point_before_last_def
        pad_to_two_def digits_of_def show_nat.simps digit_unit_def escapeHtml_def
        set_textContent_def get_innerHTML_def escape_string_def escape_unit_def js_def)
  from card [OF scored] evaluated product_953 below_953 rounded_953 show ?thesis
    by (simp add: or_else_def escapeHtml_eq escape_unit_def show_nat.simps digit_unit_def js_def)
qed

text \<open>
  C8 as stated speaks of every rendered record. A record without a \<^verbatim>\<open>score\<close> is rendered
  too: \<^verbatim>\<open>undefined * 100\<close> is \<^verbatim>\<open>NaN\<close>, and the card shows \<^verbatim>\<open>NaN%\<close>.
\<close>

theorem score_absent_counterexample:
  \<open>innerHTML (memoriesContainer_children
        (fst (displayMemories
           (map Some [\<lparr>chunk_text = Some (js ''a''), text' = None, score = None\<rparr>])
           (page [] False [] []))) ! 0)
      = js ''\<newline>        <div class="memory-text">a</div>\<newline>        <div class="memory-meta">\<newline>          <span>Score: NaN%</span>\<newline>          <span>Memory #1</span>\<newline>        </div>\<newline>      ''\<close>
  using children_nth [of 0 "[\<lparr>chunk_text = Some (js ''a''), text' = None, score = None\<rparr>]"
      "page [] False [] []"]
  by (simp add: memoryElement_def memory_html_def or_else_def escapeHtml_eq
      escape_unit_def to_number_def toFixed1_def show_nat.simps digit_unit_def js_def)

text \<open>
  C10. In every state the popup can reach, a click on a card whose record has neither
  \<^verbatim>\<open>chunk_text\<close> nor \<^verbatim>\<open>text\<close> passes the empty string to \<^verbatim>\<open>writeText\<close> and changes nothing
  on the page, while the markup of the card begins with the placeholder
  \<^verbatim>\<open>No text available\<close>. When the clipboard promise is rejected, the only effect is a line
  on the console; when it is fulfilled, the only effects are the background colour of
  that card and a timer of 500 ms, which clears the colour.
\<close>

theorem textless_card_copies_nothing:
  assumes "reachable s"
    and "find (\<lambda>c. element c = i) (memoriesContainer_children s) = Some c"
    and "chunk_text (listener_memory c) = None"
    and "text' (listener_memory c) = None"
  shows
    \<open>step (CardClick i) s
       = s\<lparr>clipboard_writes := clipboard_writes s @ [[]],
            clipboard_pending := clipboard_pending s @ [i]\<rparr>
     \<and> prefix (js ''\<newline>        <div class="memory-text">No text available</div>'')
          (innerHTML c)
     \<and> (\<forall>u. i \<in> set (clipboard_pending u) \<longrightarrow>
           step (ClipboardSettled i False) u
             = u\<lparr>clipboard_pending := remove1 i (clipboard_pending u),
                  console := console u @ [Error (js ''Failed to copy text: '')]\<rparr>
         \<and> step (ClipboardSettled i True) u
             = u\<lparr>clipboard_pending := remove1 i (clipboard_pending u),
                  memoriesContainer_children :=
                    map (\<lambda>c. if element c = i then c\<lparr>backgroundColor := js ''#34a853''\<rparr> else c)
                      (memoriesContainer_children u),
                  timers := timers u @ [(500, i)]\<rparr>)
     \<and> (\<forall>u. (500, i) \<in> set (timers u) \<longrightarrow>
           step (TimerFired i) u
             = u\<lparr>memoriesContainer_children :=
                    map (\<lambda>c. if element c = i then c\<lparr>backgroundColor := []\<rparr> else c)
                      (memoriesContainer_children u),
                  timers := remove1 (500, i) (timers u)\<rparr>)\<close>
proof -
  have placeholder: "escapeHtml (js ''No text available'') = js ''No text available''"
    by (simp add: escapeHtml_eq escape_unit_def js_def)
  have click: "step (CardClick i) s
       = s\<lparr>clipboard_writes := clipboard_writes s @ [[]],
            clipboard_pending := clipboard_pending s @ [i]\<rparr>"
    using assms(2-4) by (simp add: card_clicked_def or_else_def)
  have "c \<in> set (memoriesContainer_children s)"
    using assms(2) by (auto simp: find_Some_iff)
  with reachable_cards [OF assms(1)]
  obtain index where "innerHTML c = memory_html (listener_memory c) index" by blast
  then have shown:
    "prefix (js ''\<newline>        <div class=\"memory-text\">No text available</div>'') (innerHTML c)"
    using assms(3,4) by (simp add: memory_html_def or_else_def placeholder) (simp add: js_def)
  have settle: "\<And>u. i \<in> set (clipboard_pending u) \<Longrightarrow>
           step (ClipboardSettled i False) u
             = u\<lparr>clipboard_pending := remove1 i (clipboard_pending u),
                  console := console u @ [Error (js ''Failed to copy text: '')]\<rparr>
         \<and> step (ClipboardSettled i True) u
             = u\<lparr>clipboard_pending := remove1 i (clipboard_pending u),
                  memoriesContainer_children :=
                    map (\<lambda>c. if element c = i then c\<lparr>backgroundColor := js ''#34a853''\<rparr> else c)
                      (memoriesContainer_children u),
                  timers := timers u @ [(500, i)]\<rparr>"
    by (simp add: clipboard_settled_def set_backgroundColor_def console_error_def Let_def)
  have timer: "\<And>u. (500, i) \<in> set (timers u) \<Longrightarrow>
           step (TimerFired i) u
             = u\<lparr>memoriesContainer_children :=
                    map (\<lambda>c. if element c = i then c\<lparr>backgroundColor := []\<rparr> else c)
                      (memoriesContainer_children u),
                  timers := remove1 (500, i) (timers u)\<rparr>"
    by (simp add: timer_fired_def set_backgroundColor_def)
  from click shown settle timer show ?thesis by (simp del: step.simps)
qed

theorem textless_card_copies_nothing_witness:
  \<open>reachable
     (step (JsonSettled (JsonParsed \<lparr>results = Some [Some \<lparr>chunk_text = None, text' = None, score = None\<rparr>]\<rparr>))
        (step (FetchSettled (Responded 200))
           (step Click (step (Input (js ''a b'')) (DOMContentLoaded (page [] False [] []))))))
   \<and> clipboard_writes
        (step (CardClick 0)
          (step (JsonSettled (JsonParsed \<lparr>results = Some [Some \<lparr>chunk_text = None, text' = None, score = None\<rparr>]\<rparr>))
            (step (FetchSettled (Responded 200))
              (step Click (step (Input (js ''a b'')) (DOMContentLoaded (page [] False [] [])))))))
     = [[]]
   \<and> innerHTML (memoryElement 0 0 \<lparr>chunk_text = None, text' = None, score = None\<rparr>)
     = js ''\<newline>        <div class="memory-text">No text available</div>\<newline>        <div class="memory-meta">\<newline>          <span>Score: NaN%</span>\<newline>          <span>Memory #1</span>\<newline>        </div>\<newline>      ''\<close>
proof -
  let ?m = "\<lparr>chunk_text = None, text' = None, score = None\<rparr>"
  let ?s = "step (JsonSettled (JsonParsed \<lparr>results = Some [Some ?m]\<rparr>))
        (step (FetchSettled (Responded 200))
           (step Click (step (Input (js ''a b'')) (DOMContentLoaded (page [] False [] [])))))"
  have r: "reachable ?s" by (intro reachable.intros)
  have cards: "memoriesContainer_children ?s = [memoryElement 0 0 ?m]"
    "clipboard_writes ?s = []"
    by (simp_all add: searchMemories_def trim_a_b encode_a_b fetch_settled_def
        json_settled_def searchMemories_show_def displayMemories_def response_ok_def
        DOMContentLoaded_def checkServiceStatus_def page_def popup_defs Let_def)
  have f: "find (\<lambda>c. element c = 0) (memoriesContainer_children ?s) = Some (memoryElement 0 0 ?m)"
    by (simp only: cards) (simp add: memoryElement_def)
  have h: "innerHTML (memoryElement 0 0 ?m)
     = js ''\<newline>        <div class=\"memory-text\">No text available</div>\<newline>        <div class=\"memory-meta\">\<newline>          <span>Score: NaN%</span>\<newline>          <span>Memory #1</span>\<newline>        </div>\<newline>      ''"
    by (simp add: memoryElement_def memory_html_def or_else_def escapeHtml_eq escape_unit_def
        to_number_def toFixed1_def show_nat.simps digit_unit_def js_def)
  have c: "clipboard_writes ?s = []" by (simp only: cards)
  have m: "chunk_text (listener_memory (memoryElement 0 0 ?m)) = None"
    "text' (listener_memory (memoryElement 0 0 ?m)) = None"
    by (simp_all add: memoryElement_def)
  from textless_card_copies_nothing [OF r f m] have
    "step (CardClick 0) ?s
       = ?s\<lparr>clipboard_writes := clipboard_writes ?s @ [[]],
             clipboard_pending := clipboard_pending ?s @ [0]\<rparr>" by (rule conjunct1)
  then have "clipboard_writes (step (CardClick 0) ?s) = [[]]"
    by (simp only: c) simp
  with r h show ?thesis by (simp only: simp_thms)
qed

end
